theory Spec2Isabelle
  imports Main "HOL-Library.Sublist" "HOL-Library.Multiset"
begin

section \<open>JavaScript values used by the scan engine\<close>

text \<open>
  The engine is callback-style JavaScript. Strings are \<open>string\<close>, an absent
  (\<open>undefined\<close>/\<open>null\<close>) property is \<open>None\<close> wherever the source only tests it for
  truthiness, and the truthiness tests the source applies to strings, arrays and objects
  are written out. Where the source goes on to use the value as a property key or stores
  it, \<open>undefined\<close> and \<open>null\<close> are kept apart (\<open>jtext\<close>).
\<close>

datatype jtext = Undefined | Null | Text string

definition truthy_text :: "jtext \<Rightarrow> bool" where
  \<comment> \<open>\<open>if (x)\<close> for a string, \<open>undefined\<close> or \<open>null\<close>\<close>
  "truthy_text x = (case x of Text v \<Rightarrow> v \<noteq> [] | _ \<Rightarrow> False)"

definition truthy_str :: "string option \<Rightarrow> bool" where
  \<comment> \<open>\<open>if (s)\<close> for a string-or-undefined: absent and the empty string are falsy\<close>
  "truthy_str s = (case s of None \<Rightarrow> False | Some v \<Rightarrow> v \<noteq> [])"

definition nonempty_arr :: "'a list option \<Rightarrow> bool" where
  \<comment> \<open>\<open>xs && xs.length\<close>\<close>
  "nonempty_arr xs = (case xs of None \<Rightarrow> False | Some v \<Rightarrow> v \<noteq> [])"

fun join :: "string \<Rightarrow> string list \<Rightarrow> string" where
  \<comment> \<open>\<open>Array.prototype.join\<close>\<close>
  "join sep [] = []"
| "join sep [x] = x"
| "join sep (x # y # ys) = x @ sep @ join sep (y # ys)"

definition upper_char :: "char \<Rightarrow> char" where
  "upper_char c =
     (let n = (of_char c :: nat) in if 97 \<le> n \<and> n \<le> 122 then char_of (n - 32) else c)"

definition toUpperCase :: "string \<Rightarrow> string" where
  "toUpperCase s = map upper_char s"

fun show_nat :: "nat \<Rightarrow> string" where
  \<comment> \<open>decimal rendering of a number inside a template string\<close>
  "show_nat n =
     (if n < 10 then [char_of (48 + n)] else show_nat (n div 10) @ [char_of (48 + n mod 10)])"

declare show_nat.simps [simp del]

subsection \<open>Plain objects\<close>

text \<open>
  The remediation file is a nested plain object. \<open>JObj\<close> keeps the own properties in
  insertion order. Reading a property an object does not own goes on in
  \<open>Object.prototype\<close>: for the names every object inherits the value read is a built-in
  (\<open>JBuiltin\<close>, truthy); for any other name it is \<open>undefined\<close> (\<open>None\<close>). A property can
  also hold \<open>undefined\<close> or \<open>null\<close>.
\<close>

datatype jv = JUndefined | JNull | JStr string | JObj "(string \<times> jv) list" | JBuiltin string

definition object_prototype :: "string list" where
  \<comment> \<open>the property names of \<open>Object.prototype\<close>\<close>
  "object_prototype =
     [''constructor'', ''__defineGetter__'', ''__defineSetter__'', ''hasOwnProperty'',
      ''__lookupGetter__'', ''__lookupSetter__'', ''isPrototypeOf'', ''propertyIsEnumerable'',
      ''toString'', ''valueOf'', ''__proto__'', ''toLocaleString'']"

fun upd :: "string \<Rightarrow> jv \<Rightarrow> (string \<times> jv) list \<Rightarrow> (string \<times> jv) list" where
  "upd k v [] = [(k, v)]"
| "upd k v ((k', v') # kvs) = (if k = k' then (k, v) # kvs else (k', v') # upd k v kvs)"

fun jget :: "jv \<Rightarrow> string \<Rightarrow> jv option" where
  \<comment> \<open>\<open>o[k]\<close> for a plain object; the code reads no property of a string or of a built-in\<close>
  "jget (JObj kvs) k =
     (case map_of kvs k of
        Some v \<Rightarrow> Some v
      | None \<Rightarrow> if k \<in> set object_prototype then Some (JBuiltin k) else None)"
| "jget v k = None"

fun jset :: "jv \<Rightarrow> string \<Rightarrow> jv \<Rightarrow> jv" where
  \<comment> \<open>\<open>o[k] = v\<close> with an object \<open>v\<close>. Assigning a property of a string primitive is silently
      ignored; assigned to a built-in, the property lands on that shared object, which the
      file does not hold. (Assigning an object to \<open>__proto__\<close> replaces the prototype;
      \<open>o.__proto__\<close> then reads that object back, which is how it is kept here.)\<close>
  "jset (JObj kvs) k v = JObj (upd k v kvs)"
| "jset w k v = w"

definition truthy_jv :: "jv option \<Rightarrow> bool" where
  "truthy_jv v =
     (case v of
        None \<Rightarrow> False
      | Some JUndefined \<Rightarrow> False
      | Some JNull \<Rightarrow> False
      | Some (JStr s) \<Rightarrow> s \<noteq> []
      | Some (JObj kvs) \<Rightarrow> True
      | Some (JBuiltin n) \<Rightarrow> True)"

fun jget_path :: "jv \<Rightarrow> string list \<Rightarrow> jv option" where
  \<comment> \<open>\<open>o[k1][k2]...\<close>; \<open>None\<close> also stands for the TypeError of reading through \<open>undefined\<close>\<close>
  "jget_path v [] = Some v"
| "jget_path v (k # ks) = (case jget v k of None \<Rightarrow> None | Some c \<Rightarrow> jget_path c ks)"

fun jset_path :: "jv \<Rightarrow> string list \<Rightarrow> jv \<Rightarrow> jv option" where
  \<comment> \<open>\<open>o[k1][k2]...[kn] = x\<close>; \<open>None\<close> is the TypeError of assigning through \<open>undefined\<close>
      or \<open>null\<close>\<close>
  "jset_path v [] x = Some x"
| "jset_path v [k] x = (case v of JUndefined \<Rightarrow> None | JNull \<Rightarrow> None | _ \<Rightarrow> Some (jset v k x))"
| "jset_path v (k # k' # ks) x =
     (case jget v k of
        None \<Rightarrow> None
      | Some c \<Rightarrow> (case jset_path c (k' # ks) x of None \<Rightarrow> None | Some c' \<Rightarrow> Some (jset v k c')))"

definition ensure :: "string list \<Rightarrow> jv \<Rightarrow> jv option" where
  \<comment> \<open>\<open>if (!file[k1]...[kn]) file[k1]...[kn] = {};\<close> The test sees inherited properties too.
      When \<open>file[k1]...[kn-1]\<close> is itself an inherited built-in, the test and the assignment
      concern a property of that shared object and the file stays as it is.\<close>
  "ensure path file =
     (case jget_path file (butlast path) of
        None \<Rightarrow> None
      | Some JUndefined \<Rightarrow> None
      | Some JNull \<Rightarrow> None
      | Some (JBuiltin n) \<Rightarrow> Some file
      | Some parent \<Rightarrow>
          if truthy_jv (jget_path file path) then Some file
          else jset_path file path (JObj []))"

definition prop_key :: "jtext \<Rightarrow> string" where
  \<comment> \<open>a value used as a property key is converted to a string\<close>
  "prop_key r = (case r of Undefined \<Rightarrow> ''undefined'' | Null \<Rightarrow> ''null'' | Text s \<Rightarrow> s)"

definition initializeFile :: "jv \<Rightarrow> string \<Rightarrow> string \<Rightarrow> jtext \<Rightarrow> jv option" where
  "initializeFile file type testQuery resource =
     (let r = prop_key resource in
      Option.bind (ensure [''access''] file) (\<lambda>file.
      Option.bind (ensure [''pre_remediate''] file) (\<lambda>file.
      Option.bind (ensure [''pre_remediate'', ''actions''] file) (\<lambda>file.
      Option.bind (ensure [''pre_remediate'', ''actions'', testQuery] file) (\<lambda>file.
      Option.bind (ensure [''pre_remediate'', ''actions'', testQuery, r] file) (\<lambda>file.
      Option.bind (ensure [''post_remediate''] file) (\<lambda>file.
      Option.bind (ensure [''post_remediate'', ''actions''] file) (\<lambda>file.
      Option.bind (ensure [''post_remediate'', ''actions'', testQuery] file) (\<lambda>file.
      Option.bind (ensure [''post_remediate'', ''actions'', testQuery, r] file) (\<lambda>file.
      Option.bind (ensure [''remediate''] file) (\<lambda>file.
      Option.bind (ensure [''remediate'', ''actions''] file) (\<lambda>file.
      Option.bind (ensure [''remediate'', ''actions'', testQuery] file) (\<lambda>file.
      ensure [''remediate'', ''actions'', testQuery, r] file)))))))))))))"

section \<open>Data model\<close>

text \<open>
  A result as a check emits it. The status is one of the numbers 0 (OK), 1 (WARN),
  2 (FAIL), 3 (ERROR); region and resource are strings, \<open>undefined\<close> or \<open>null\<close>.
\<close>

record result =
  status :: nat
  message :: string
  region :: jtext
  resource :: jtext

text \<open>
  What calling a check's \<open>run\<close> (or the alternate runtime's runner) does with the
  callback it is handed: call it with \<open>(err, results)\<close>, throw, or never call it.
\<close>

datatype run_outcome =
    Calls_back "string option" "result list option"
  | Throws string
  | Never_calls_back

text \<open>
  What a check's \<open>remediate\<close> does with the engine's callback: call it with an error,
  call it with the applied action, or throw before calling it.
\<close>

datatype rem_outcome = Rem_error string | Rem_done string | Rem_throws string

record asl_desc =
  asl_version :: "string option"
  asl_run :: run_outcome

text \<open>
  A check descriptor of the catalog. \<open>p_compliance\<close> and \<open>p_remediate\<close> are the
  source's \<open>compliance\<close> and \<open>remediate\<close> properties (renamed apart from the settings of
  the same names). \<open>p_remediate\<close> takes the resource and the remediation file.
\<close>

record plugin =
  title :: string
  apis :: "string list option"
  apis_remediate :: "string list option"
  p_compliance :: "(string \<times> string) list option"
  types :: "string list option"
  asl :: "asl_desc option"
  run :: run_outcome
  p_remediate :: "(jtext \<Rightarrow> jv \<Rightarrow> rem_outcome) option"

record settings =
  cloud :: string
  plugin :: "string option"
  compliance :: "string list option"
  remediate :: "string list option"
  suppress :: "string list option"
  govcloud :: bool
  china :: bool
  ignore_ok :: bool
  skip_paginate :: bool
  run_asl :: bool
  exit_code :: bool

record cloudConfig =
  organization :: bool
  has_remediate :: bool
  blob_upload :: bool

text \<open>
  The collaborators that are not part of the engine's source, as parameters:
  the suppression filter built by \<open>suppress.create\<close>, the collector's answer, the Azure
  login's answer, and which alternate-runtime versions can be loaded.
\<close>

datatype collect_outcome = Collect_error string | Collect_nothing | Collected

record env =
  suppressionFilter :: "string \<Rightarrow> bool"
  collector :: collect_outcome
  azure_login :: "string option"
  asl_current_version :: string
  asl_installed :: "string list"

datatype rem_event =
    File_initialized string jtext jv
  | Remediate_called string jtext jv

text \<open>
  Everything the engine changes or emits, in one state: console lines, the calls of
  \<open>outputHandler.writeResult\<close>, the planner's variables, the running verdict, the
  remediation calls, and the bookkeeping of \<open>async.mapValuesLimit\<close>. \<open>crashed\<close> holds an
  exception nobody catches; the state is then what had been done when it was thrown.
\<close>

record scan =
  log :: "string list"
  apiCalls :: "string list"
  skippedPlugins :: "string list"
  written :: "(result \<times> string \<times> string option) list"
  resultsObject :: "(string \<times> result list) list"
  maximumStatus :: nat
  rem_trace :: "rem_event list"
  queue :: "(string \<times> plugin) list"
  running :: nat
  done_flag :: bool
  timers :: "string option list"
  joined :: bool
  output_closed :: bool
  uploaded :: bool
  exitCode :: "nat option"
  crashed :: "string option"

definition scan0 :: scan where
  "scan0 = \<lparr>log = [], apiCalls = [], skippedPlugins = [], written = [], resultsObject = [],
            maximumStatus = 0, rem_trace = [], queue = [], running = 0, done_flag = False,
            timers = [], joined = False, output_closed = False, uploaded = False,
            exitCode = None, crashed = None\<rparr>"

definition console :: "string \<Rightarrow> scan \<Rightarrow> scan" where
  "console line st = st\<lparr>log := log st @ [line]\<rparr>"

definition throw :: "string \<Rightarrow> scan \<Rightarrow> scan" where
  "throw e st = st\<lparr>crashed := Some e\<rparr>"

section \<open>STEP 1: the API calls to make\<close>

fun add_apis :: "string list \<Rightarrow> string list \<Rightarrow> string list" where
  \<comment> \<open>\<open>xs.forEach(api => { if (apiCalls.indexOf(api) === -1) apiCalls.push(api) })\<close>\<close>
  "add_apis [] calls = calls"
| "add_apis (a # as) calls = add_apis as (if a \<in> set calls then calls else calls @ [a])"

definition compliance_text :: "plugin \<Rightarrow> string \<Rightarrow> string option" where
  \<comment> \<open>\<open>plugin.compliance && plugin.compliance[c]\<close>\<close>
  "compliance_text p c = (case p_compliance p of None \<Rightarrow> None | Some m \<Rightarrow> map_of m c)"

definition compliance_hit :: "plugin \<Rightarrow> string \<Rightarrow> bool" where
  "compliance_hit p c = truthy_str (compliance_text p c)"

text \<open>
  The body of the planning loop up to \<open>if (skip)\<close>: the error of reading
  \<open>plugin.types.indexOf\<close> on a check without \<open>types\<close>, or the flag \<open>skip\<close> with the debug
  lines printed on the way.
\<close>

definition selection ::
  "cloudConfig \<Rightarrow> settings \<Rightarrow> string \<Rightarrow> plugin \<Rightarrow> string + (bool \<times> string list)" where
  "selection cfg s pluginId p =
     (if truthy_str (plugin s) \<and> plugin s \<noteq> Some pluginId then Inr (True, [])
      else
        (case (if cloud s = ''github''
               then (case types p of
                       None \<Rightarrow> Inl ''TypeError: Cannot read properties of undefined (reading indexOf)''
                     | Some ts \<Rightarrow>
                         if organization cfg \<and> ''org'' \<notin> set ts
                         then Inr (True, [''DEBUG: Skipping GitHub plugin '' @ title p @
                                          '' because it is not for Organization accounts''])
                         else if \<not> organization cfg \<and> ''org'' \<notin> set ts
                         then Inr (True, [''DEBUG: Skipping GitHub plugin '' @ title p @
                                          '' because it is not for User accounts''])
                         else Inr (False, []))
               else Inr (False, [])) of
           Inl e \<Rightarrow> Inl e
         | Inr (skip, dbg) \<Rightarrow>
             (case compliance s of
                None \<Rightarrow> Inr (skip, dbg)
              | Some cs \<Rightarrow>
                  if cs = [] then Inr (skip, dbg)
                  else if \<not> nonempty_arr (p_compliance p)
                  then Inr (True, dbg @ [''DEBUG: Skipping plugin '' @ title p @
                                         '' because it is not used for compliance programs''])
                  else if \<not> (\<exists>c \<in> set cs. compliance_hit p c)
                  then Inr (True, dbg @ [''DEBUG: Skipping plugin '' @ title p @
                                         '' because it did not match compliance programs '' @
                                         join '', '' cs])
                  else Inr (skip, dbg))))"

definition plan_step :: "cloudConfig \<Rightarrow> settings \<Rightarrow> scan \<Rightarrow> string \<times> plugin \<Rightarrow> scan" where
  "plan_step cfg s st e =
     (case e of (pluginId, p) \<Rightarrow>
      if crashed st \<noteq> None then st
      else
        (case selection cfg s pluginId p of
           Inl err \<Rightarrow> throw err st
         | Inr (skip, dbg) \<Rightarrow>
             let st1 = st\<lparr>log := log st @ dbg\<rparr> in
             if skip then st1\<lparr>skippedPlugins := skippedPlugins st1 @ [pluginId]\<rparr>
             else
               (case apis p of
                  None \<Rightarrow> throw ''TypeError: Cannot read properties of undefined (reading forEach)'' st1
                | Some as \<Rightarrow>
                    let st2 = st1\<lparr>apiCalls := add_apis as (apiCalls st1)\<rparr> in
                    (case remediate s of
                       None \<Rightarrow> st2
                     | Some rs \<Rightarrow>
                         if pluginId \<in> set rs
                         then (case apis_remediate p of
                                 None \<Rightarrow> throw ''TypeError: Cannot read properties of undefined (reading forEach)'' st2
                               | Some ar \<Rightarrow> st2\<lparr>apiCalls := add_apis ar (apiCalls st2)\<rparr>)
                         else st2))))"

definition plan :: "cloudConfig \<Rightarrow> settings \<Rightarrow> (string \<times> plugin) list \<Rightarrow> scan \<Rightarrow> scan" where
  \<comment> \<open>\<open>Object.entries(plugins).forEach(...)\<close>\<close>
  "plan cfg s plugins st = foldl (plan_step cfg s) st plugins"

section \<open>The result pipeline\<close>

definition or_any :: "jtext \<Rightarrow> string" where
  \<comment> \<open>\<open>x || 'any'\<close>\<close>
  "or_any x = (if truthy_text x then (case x of Text v \<Rightarrow> v | _ \<Rightarrow> ''any'') else ''any'')"

definition suppression_key :: "string \<Rightarrow> result \<Rightarrow> string" where
  "suppression_key key r = join '':'' [key, or_any (region r), or_any (resource r)]"

definition complianceMsg :: "settings \<Rightarrow> plugin \<Rightarrow> string option" where
  "complianceMsg s p =
     (let msgs = (case compliance s of
                    None \<Rightarrow> []
                  | Some cs \<Rightarrow>
                      concat (map (\<lambda>c. case compliance_text p c of
                                          None \<Rightarrow> []
                                        | Some t \<Rightarrow> if t = [] then [] else [toUpperCase c @ '': '' @ t]) cs));
          m = join ''; '' msgs
      in if m = [] then None else Some m)"

definition results_init :: "string \<Rightarrow> (string \<times> result list) list \<Rightarrow> (string \<times> result list) list" where
  \<comment> \<open>\<open>if (!resultsObject[t]) resultsObject[t] = []\<close>\<close>
  "results_init t obj = (case map_of obj t of None \<Rightarrow> obj @ [(t, [])] | Some _ \<Rightarrow> obj)"

definition results_push :: "string \<Rightarrow> result \<Rightarrow> (string \<times> result list) list \<Rightarrow> (string \<times> result list) list" where
  \<comment> \<open>\<open>resultsObject[t].push(r)\<close>\<close>
  "results_push t r obj = map (\<lambda>(t', rs). if t' = t then (t', rs @ [r]) else (t', rs)) obj"

definition remediation_requested :: "settings \<Rightarrow> string \<Rightarrow> bool" where
  \<comment> \<open>\<open>settings.remediate && settings.remediate.length\<close> and \<open>settings.remediate.indexOf(key) > -1\<close>\<close>
  "remediation_requested s key = (case remediate s of None \<Rightarrow> False | Some rs \<Rightarrow> rs \<noteq> [] \<and> key \<in> set rs)"

definition remediation :: "string \<Rightarrow> plugin \<Rightarrow> result \<Rightarrow> scan \<Rightarrow> scan" where
  \<comment> \<open>the body of \<open>if (results[r].status === 2)\<close>; the check's callback answers at once\<close>
  "remediation key p r st =
     (case initializeFile (JObj []) ''execute'' key (resource r) of
        None \<Rightarrow> throw ''TypeError: Cannot read properties of undefined'' st
      | Some file \<Rightarrow>
          let st1 = st\<lparr>rem_trace := rem_trace st @ [File_initialized key (resource r) file]\<rparr> in
          (case p_remediate p of
             None \<Rightarrow> throw ''TypeError: plugin.remediate is not a function'' st1
           | Some f \<Rightarrow>
               let st2 = st1\<lparr>rem_trace := rem_trace st1 @ [Remediate_called key (resource r) file]\<rparr> in
               (case f (resource r) file of
                  Rem_error err \<Rightarrow> console err st2
                | Rem_done action \<Rightarrow> console action st2
                | Rem_throws x \<Rightarrow> throw x st2)))"

fun process_results :: "env \<Rightarrow> settings \<Rightarrow> string \<Rightarrow> plugin \<Rightarrow> result list \<Rightarrow> scan \<Rightarrow> scan" where
  \<comment> \<open>\<open>for (var r in results) { ... }\<close>\<close>
  "process_results e s key p [] st = st"
| "process_results e s key p (r # rs) st =
     (if crashed st \<noteq> None then st
      else if suppressionFilter e (suppression_key key r) then process_results e s key p rs st
      else
        process_results e s key p rs
          ((if remediation_requested s key \<and> status r = 2 then remediation key p r else id)
             (st\<lparr>resultsObject := results_push (title p) r (resultsObject st),
                 written := written st @ [(r, key, complianceMsg s p)],
                 maximumStatus := max (maximumStatus st) (status r)\<rparr>)))"

definition postRun ::
  "env \<Rightarrow> settings \<Rightarrow> string \<Rightarrow> plugin \<Rightarrow> string option \<Rightarrow> result list option \<Rightarrow> scan \<Rightarrow> scan" where
  \<comment> \<open>ends with \<open>setTimeout(function() { pluginDone(err, maximumStatus); }, 0)\<close>\<close>
  "postRun e s key p err results st =
     (if truthy_str err then console (''ERROR: '' @ (case err of Some m \<Rightarrow> m | None \<Rightarrow> [])) st
      else
        let st1 = (if nonempty_arr results
                   then process_results e s key p (case results of Some rs \<Rightarrow> rs | None \<Rightarrow> [])
                          (st\<lparr>resultsObject := results_init (title p) (resultsObject st)\<rparr>)
                   else console (''Plugin '' @ title p @
                                 '' returned no results. There may be a problem with this plugin.'') st)
        in if crashed st1 \<noteq> None then st1 else st1\<lparr>timers := timers st1 @ [err]\<rparr>)"

section \<open>The scheduler\<close>

text \<open>
  \<open>async.mapValuesLimit(plugins, 10, iteratee, callback)\<close> comes from the npm package
  \<open>async\<close>: its \<open>replenish\<close> loop starts work items while fewer than the limit are
  running, every \<open>pluginDone\<close> frees a slot, the first \<open>pluginDone(err)\<close> with an error
  or the last one without calls the final callback, which runs at most once. The checks
  answer their callback before \<open>run\<close> returns (they read the collected data only), so
  the timers set by \<open>postRun\<close> fire in the order they were set.
\<close>

definition final_callback :: "cloudConfig \<Rightarrow> settings \<Rightarrow> string option \<Rightarrow> scan \<Rightarrow> scan" where
  "final_callback cfg s err st =
     (if joined st then st
      else if truthy_str err
      then console (case err of Some m \<Rightarrow> m | None \<Rightarrow> []) (st\<lparr>joined := True\<rparr>)
      else
        let st1 = st\<lparr>joined := True, uploaded := blob_upload cfg, output_closed := True\<rparr>;
            st2 = (if exit_code s
                   then (console (''INFO: Exiting with exit code: '' @ show_nat (maximumStatus st1)) st1)
                          \<lparr>exitCode := Some (maximumStatus st1)\<rparr>
                   else st1)
        in console ''INFO: Scan complete'' st2)"

definition run_with :: "env \<Rightarrow> settings \<Rightarrow> string \<Rightarrow> plugin \<Rightarrow> run_outcome \<Rightarrow> scan \<Rightarrow> scan" where
  "run_with e s key p outcome st =
     (case outcome of
        Calls_back err results \<Rightarrow> postRun e s key p err results st
      | Throws x \<Rightarrow> throw x st
      | Never_calls_back \<Rightarrow> st)"

definition iteratee :: "env \<Rightarrow> settings \<Rightarrow> string \<Rightarrow> plugin \<Rightarrow> scan \<Rightarrow> scan" where
  \<comment> \<open>\<open>function(plugin, key, pluginDone)\<close>; a skipped check calls \<open>pluginDone(null, 0)\<close> at once\<close>
  "iteratee e s key p st =
     (if key \<in> set (skippedPlugins st) then st\<lparr>running := running st - 1\<rparr>
      else
        (case asl p of
           None \<Rightarrow> run_with e s key p (run p) st
         | Some a \<Rightarrow>
             if \<not> run_asl s then run_with e s key p (run p) st
             else
               let st1 = console (''INFO: Using custom ASL for plugin: '' @ title p) st;
                   aslVersion = (if truthy_str (asl_version a)
                                 then (case asl_version a of Some v \<Rightarrow> v | None \<Rightarrow> [])
                                 else asl_current_version e)
               in if aslVersion \<in> set (asl_installed e) then run_with e s key p (asl_run a) st1
                  else throw ''TypeError: aslRunner is not a function''
                         (postRun e s key p (Some ''Error: ASL: Wrong ASL Version: '') None st1)))"

fun replenish :: "env \<Rightarrow> cloudConfig \<Rightarrow> settings \<Rightarrow> (string \<times> plugin) list \<Rightarrow> scan \<Rightarrow> scan" where
  \<comment> \<open>\<open>while (running < limit && !done) { ... }\<close> over the entries not yet started\<close>
  "replenish e cfg s [] st =
     (if crashed st = None \<and> running st < 10 \<and> \<not> done_flag st
      then (if running st = 0 then final_callback cfg s None (st\<lparr>queue := [], done_flag := True\<rparr>)
            else st\<lparr>queue := [], done_flag := True\<rparr>)
      else st\<lparr>queue := []\<rparr>)"
| "replenish e cfg s ((key, p) # q) st =
     (if crashed st = None \<and> running st < 10 \<and> \<not> done_flag st
      then replenish e cfg s q (iteratee e s key p (st\<lparr>running := running st + 1\<rparr>))
      else st\<lparr>queue := (key, p) # q\<rparr>)"

definition pluginDone :: "env \<Rightarrow> cloudConfig \<Rightarrow> settings \<Rightarrow> string option \<Rightarrow> scan \<Rightarrow> scan" where
  \<comment> \<open>a timer of \<open>postRun\<close> fires: \<open>iterateeCallback(err)\<close> of the package\<close>
  "pluginDone e cfg s err st =
     (let st1 = st\<lparr>running := running st - 1\<rparr> in
      if truthy_str err then final_callback cfg s err (st1\<lparr>done_flag := True\<rparr>)
      else if done_flag st1 \<and> running st1 = 0 then final_callback cfg s None st1
      else replenish e cfg s (queue st1) st1)"

subsection \<open>What each step leaves alone\<close>

lemma console_fields [simp]:
  "timers (console l st) = timers st" "queue (console l st) = queue st"
  "crashed (console l st) = crashed st" "running (console l st) = running st"
  "done_flag (console l st) = done_flag st" "joined (console l st) = joined st"
  "maximumStatus (console l st) = maximumStatus st" "written (console l st) = written st"
  "skippedPlugins (console l st) = skippedPlugins st" "rem_trace (console l st) = rem_trace st"
  "output_closed (console l st) = output_closed st" "apiCalls (console l st) = apiCalls st"
  "resultsObject (console l st) = resultsObject st" "exitCode (console l st) = exitCode st"
  "log (console l st) = log st @ [l]"
  by (simp_all add: console_def)

lemma throw_fields [simp]:
  "timers (throw x st) = timers st" "queue (throw x st) = queue st"
  "crashed (throw x st) = Some x" "running (throw x st) = running st"
  "done_flag (throw x st) = done_flag st" "joined (throw x st) = joined st"
  "maximumStatus (throw x st) = maximumStatus st" "written (throw x st) = written st"
  "skippedPlugins (throw x st) = skippedPlugins st" "rem_trace (throw x st) = rem_trace st"
  "output_closed (throw x st) = output_closed st" "apiCalls (throw x st) = apiCalls st"
  "log (throw x st) = log st"
  by (simp_all add: throw_def)

lemma remediation_sched [simp]:
  "timers (remediation key p r st) = timers st" "queue (remediation key p r st) = queue st"
  "running (remediation key p r st) = running st" "done_flag (remediation key p r st) = done_flag st"
  "joined (remediation key p r st) = joined st" "skippedPlugins (remediation key p r st) = skippedPlugins st"
  by (simp_all add: remediation_def Let_def split: option.splits rem_outcome.splits)

lemma process_results_sched [simp]:
  "timers (process_results e s key p rs st) = timers st"
  "queue (process_results e s key p rs st) = queue st"
  "running (process_results e s key p rs st) = running st"
  "done_flag (process_results e s key p rs st) = done_flag st"
  "joined (process_results e s key p rs st) = joined st"
  "skippedPlugins (process_results e s key p rs st) = skippedPlugins st"
  by (induction rs arbitrary: st; simp)+

lemma final_callback_sched [simp]:
  "timers (final_callback cfg s err st) = timers st"
  "queue (final_callback cfg s err st) = queue st"
  "crashed (final_callback cfg s err st) = crashed st"
  by (simp_all add: final_callback_def Let_def)

lemma postRun_timers: "length (timers (postRun e s key p err res st)) \<le> Suc (length (timers st))"
  by (simp add: postRun_def Let_def)

lemma postRun_queue [simp]: "queue (postRun e s key p err res st) = queue st"
  by (simp add: postRun_def Let_def)

lemma iteratee_timers: "length (timers (iteratee e s key p st)) \<le> Suc (length (timers st))"
  using postRun_timers [of e s key p _ _ st] postRun_timers [of e s key p _ _ "console _ st"]
  by (auto simp add: iteratee_def run_with_def Let_def split: option.splits run_outcome.splits)

lemma replenish_measure:
  "2 * length (queue (replenish e cfg s q st)) + length (timers (replenish e cfg s q st))
     \<le> 2 * length q + length (timers st)"
proof (induction q arbitrary: st)
  case Nil
  then show ?case by simp
next
  case (Cons a q)
  obtain key p where a: "a = (key, p)" by (cases a)
  show ?case
    using Cons.IH [of "iteratee e s key p (st\<lparr>running := running st + 1\<rparr>)"]
          iteratee_timers [of e s key p "st\<lparr>running := running st + 1\<rparr>"]
    by (simp add: a)
qed

lemma pluginDone_measure:
  "2 * length (queue (pluginDone e cfg s err st)) + length (timers (pluginDone e cfg s err st))
     \<le> 2 * length (queue st) + length (timers st)"
  using replenish_measure [of e cfg s "queue st" "st\<lparr>running := running st - 1\<rparr>"]
  by (simp add: pluginDone_def Let_def)

text \<open>
  The timers fire in order until none is left (or an exception ended the process).
  Each firing removes a timer, and starting a check removes it from the queue and sets at
  most one timer, which bounds the loop.
\<close>

function event_loop :: "env \<Rightarrow> cloudConfig \<Rightarrow> settings \<Rightarrow> scan \<Rightarrow> scan" where
  "event_loop e cfg s st =
     (if crashed st \<noteq> None then st
      else (case timers st of
              [] \<Rightarrow> st
            | err # ts \<Rightarrow> event_loop e cfg s (pluginDone e cfg s err (st\<lparr>timers := ts\<rparr>))))"
  by pat_completeness auto
termination
proof (relation "measure (\<lambda>(e, cfg, s, st). 2 * length (queue st) + length (timers st))")
  show "wf (measure (\<lambda>(e, cfg, s, st). 2 * length (queue st) + length (timers st)))" by simp
next
  fix e cfg s and st :: scan and err ts
  assume "\<not> crashed st \<noteq> None" and t: "timers st = err # ts"
  show "((e, cfg, s, pluginDone e cfg s err (st\<lparr>timers := ts\<rparr>)), (e, cfg, s, st))
          \<in> measure (\<lambda>(e, cfg, s, st). 2 * length (queue st) + length (timers st))"
    using pluginDone_measure [of e cfg s err "st\<lparr>timers := ts\<rparr>"] t by simp
qed


declare event_loop.simps [simp del]

definition executePlugins ::
  "env \<Rightarrow> cloudConfig \<Rightarrow> settings \<Rightarrow> (string \<times> plugin) list \<Rightarrow> scan \<Rightarrow> scan" where
  \<comment> \<open>\<open>var maximumStatus = 0; var resultsObject = {};\<close> and the call of \<open>async.mapValuesLimit\<close>\<close>
  "executePlugins e cfg s plugins st =
     event_loop e cfg s (replenish e cfg s plugins (st\<lparr>maximumStatus := 0, resultsObject := []\<rparr>))"

section \<open>The engine\<close>

definition banner :: "settings \<Rightarrow> string list" where
  \<comment> \<open>the customization options printed first\<close>
  "banner s =
     (case compliance s of None \<Rightarrow> []
        | Some cs \<Rightarrow> [''INFO: Using compliance modes: '' @ join '', '' cs]) @
     (if govcloud s then [''INFO: Using AWS GovCloud mode''] else []) @
     (if china s then [''INFO: Using AWS China mode''] else []) @
     (if ignore_ok s then [''INFO: Ignoring passing results''] else []) @
     (if skip_paginate s then [''INFO: Skipping AWS pagination mode''] else []) @
     (if nonempty_arr (suppress s) then [''INFO: Suppressing results based on suppress flags''] else []) @
     (if nonempty_arr (remediate s) then [''INFO: Remediate the plugins mentioned here''] else [])"

definition analyse ::
  "env \<Rightarrow> cloudConfig \<Rightarrow> settings \<Rightarrow> (string \<times> plugin) list \<Rightarrow> scan \<Rightarrow> scan" where
  \<comment> \<open>the collector's callback; \<open>outputHandler.writeCollection\<close> writes the collected data,
      not results, and is left out\<close>
  "analyse e cfg s plugins st =
     (case collector e of
        Collect_error err \<Rightarrow> console (''ERROR: Unable to obtain API metadata: '' @ err) st
      | Collect_nothing \<Rightarrow> console ''ERROR: Unable to obtain API metadata: No data returned'' st
      | Collected \<Rightarrow>
          let st1 = console ''INFO: Analysis complete. Scan report to follow...''
                      (console ''INFO: Metadata collection complete. Analyzing...'' st)
          in if nonempty_arr (remediate s) \<and> has_remediate cfg \<and> cloud s = ''azure''
             then (case azure_login e of
                     Some err \<Rightarrow> console err st1
                   | None \<Rightarrow> executePlugins e cfg s plugins st1)
             else executePlugins e cfg s plugins st1)"

definition start :: "settings \<Rightarrow> (string \<times> plugin) list \<Rightarrow> scan + scan" where
  \<comment> \<open>up to \<open>// STEP 1\<close>: \<open>Inl\<close> is the early return for a plugin id the catalog does not have\<close>
  "start s plugins =
     (let st = scan0\<lparr>log := banner s\<rparr> in
      if truthy_str (plugin s)
      then (case plugin s of
              None \<Rightarrow> Inr st
            | Some name \<Rightarrow>
                (case map_of plugins name of
                   None \<Rightarrow> Inl (console (''ERROR: Invalid plugin: '' @ name) st)
                 | Some p \<Rightarrow> Inr (console (''INFO: Testing plugin: '' @ title p) st)))
      else Inr st)"

definition engine :: "env \<Rightarrow> cloudConfig \<Rightarrow> settings \<Rightarrow> (string \<times> plugin) list \<Rightarrow> scan" where
  "engine e cfg s plugins =
     (case start s plugins of
        Inl stopped \<Rightarrow> stopped
      | Inr st1 \<Rightarrow>
          let st2 = plan cfg s plugins (console ''INFO: Determining API calls to make...'' st1) in
          if crashed st2 \<noteq> None then st2
          else if apiCalls st2 = [] then console ''ERROR: Nothing to collect.'' st2
          else
            analyse e cfg s plugins
              (console ''INFO: Collecting metadata. This may take several minutes...''
                 (console (''INFO: Found '' @ show_nat (length (apiCalls st2)) @
                           '' API calls to make for '' @ cloud s @ '' plugins'') st2)))"

section \<open>The Lambda checks\<close>

text \<open>
  The collected data the checks read. \<open>helpers.addSource(cache, source, path)\<close> returns
  the cache entry at the path, or nothing when there is none; an entry has an error or
  data.
\<close>

record role =
  RoleName :: string
  Arn :: string

record lambda_function =
  FunctionName :: "string option"
  FunctionArn :: jtext

record fn_config =
  Role :: jtext

record fn_data =
  Configuration :: "fn_config option"

record role_data =
  data_Role :: "role option"

record 'a entry =
  err :: "string option"
  data :: "'a option"

record cache =
  listFunctions :: "string \<Rightarrow> lambda_function list entry option"
  getFunction :: "string \<Rightarrow> string \<Rightarrow> fn_data entry option"
  listRoles :: "string \<Rightarrow> role list entry option"
  getRole :: "string \<Rightarrow> string \<Rightarrow> role_data entry option"
  createRole :: "string \<Rightarrow> string \<Rightarrow> role_data entry option"

text \<open>
  The helpers of \<open>helpers/aws\<close> are not part of the sources at hand; they are
  parameters: the regions to visit, the default region, the text \<open>helpers.addError\<close>
  makes of an entry's error, and the answer of the provider to
  \<open>helpers.remediatePlugin\<close>.
\<close>

record helpers =
  regions_lambda :: "string list"
  defaultRegion :: string
  addError :: "string option \<Rightarrow> string"
  remediatePlugin :: "string \<Rightarrow> string \<Rightarrow> string \<Rightarrow> string option"

definition addResult :: "nat \<Rightarrow> string \<Rightarrow> string \<Rightarrow> jtext \<Rightarrow> result" where
  \<comment> \<open>Modelled from the spec: \<open>helpers.addResult(results, status, message, region, resource)\<close>
      is not among the sources; it appends a result with these four fields.\<close>
  "addResult st msg reg res = \<lparr>status = st, message = msg, region = Text reg, resource = res\<rparr>"

definition entry_error :: "'a entry option \<Rightarrow> string option" where
  "entry_error x = (case x of None \<Rightarrow> None | Some v \<Rightarrow> err v)"

definition usable :: "'a entry option \<Rightarrow> 'a option" where
  \<comment> \<open>the data of an entry that passes \<open>!x || x.err || !x.data\<close>\<close>
  "usable x = (case x of None \<Rightarrow> None | Some v \<Rightarrow> if truthy_str (err v) then None else data v)"

definition entry_role :: "role_data entry option \<Rightarrow> role option" where
  \<comment> \<open>the role of an entry that passes \<open>!x || x.err || !x.data || !x.data.Role\<close>\<close>
  "entry_role x = (case usable x of None \<Rightarrow> None | Some d \<Rightarrow> data_Role d)"

definition role_details :: "cache \<Rightarrow> string \<Rightarrow> string \<Rightarrow> role option" where
  "role_details c reg name = entry_role (getRole c reg name)"

definition function_config :: "cache \<Rightarrow> string \<Rightarrow> string \<Rightarrow> fn_config option" where
  "function_config c reg name =
     (case usable (getFunction c reg name) of None \<Rightarrow> None | Some d \<Rightarrow> Configuration d)"

definition role_check :: "cache \<Rightarrow> string \<Rightarrow> role list \<Rightarrow> lambda_function \<Rightarrow> string \<Rightarrow> result list" where
  \<comment> \<open>\<open>listRoles.data.find(r => assignedRoleArn.endsWith(r.RoleName))\<close> and what follows,
      the same in both checks\<close>
  "role_check c reg roles fn assignedRoleArn =
     (case find (\<lambda>r. suffix (RoleName r) assignedRoleArn) roles of
        Some roleObj \<Rightarrow>
          (case role_details c reg (RoleName roleObj) of
             None \<Rightarrow> [addResult 2 (''Assigned IAM role exists but unable to fetch details: '' @ assignedRoleArn)
                        reg (FunctionArn fn)]
           | Some _ \<Rightarrow> [addResult 0 (''Assigned IAM role exists and retrieved: '' @ assignedRoleArn)
                          reg (FunctionArn fn)])
      | None \<Rightarrow> [addResult 2 (''Assigned IAM role NOT found: '' @ assignedRoleArn) reg (FunctionArn fn)])"


definition has_tags_function ::
  "helpers \<Rightarrow> cache \<Rightarrow> string \<Rightarrow> role list \<Rightarrow> lambda_function \<Rightarrow> result list" where
  \<comment> \<open>iamRoleHasTags.js, the body of \<open>async.each(listFunctions.data, ...)\<close>; the line it prints
      to the console for every function is not a result and is left out\<close>
  "has_tags_function h c reg roles fn =
     (if \<not> truthy_str (FunctionName fn) then []
      else
        let name = (case FunctionName fn of Some n \<Rightarrow> n | None \<Rightarrow> []) in
        (case function_config c reg name of
           None \<Rightarrow> [addResult 3 (''Unable to get Lambda function details: '' @
                                  addError h (entry_error (getFunction c reg name)))
                      reg (FunctionArn fn)]
         | Some lambdaConfig \<Rightarrow>
             addResult 0 (''Lambda function \"'' @ name @ ''\" configuration retrieved successfully'')
               reg (FunctionArn fn) #
             role_check c reg roles fn
               (if truthy_text (Role lambdaConfig)
                then (case Role lambdaConfig of Text a \<Rightarrow> a | _ \<Rightarrow> [])
                else ''No role assigned'')))"

definition check_region ::
  "(helpers \<Rightarrow> cache \<Rightarrow> string \<Rightarrow> role list \<Rightarrow> lambda_function \<Rightarrow> result list) \<Rightarrow>
   string \<Rightarrow> helpers \<Rightarrow> cache \<Rightarrow> string \<Rightarrow> result list" where
  \<comment> \<open>the body of \<open>async.each(regions.lambda, ...)\<close>; \<open>none\<close> is the message for no functions\<close>
  "check_region per_function none h c reg =
     (case listFunctions c reg of
        None \<Rightarrow> []
      | Some lf \<Rightarrow>
          if truthy_str (err lf) \<or> data lf = None
          then [addResult 3 (''Unable to query Lambda functions: '' @ addError h (err lf)) reg Undefined]
          else
            let fns = (case data lf of Some d \<Rightarrow> d | None \<Rightarrow> []) in
            if fns = [] then [addResult 0 none reg Undefined]
            else
              (case usable (listRoles c reg) of
                 None \<Rightarrow> [addResult 3 (''Unable to query IAM roles: '' @
                                        addError h (entry_error (listRoles c reg))) reg Undefined]
               | Some roles \<Rightarrow>
                   if roles = []
                   then [addResult 3 (''Unable to query IAM roles: '' @
                                      addError h (entry_error (listRoles c reg))) reg Undefined]
                   else concat (map (per_function h c reg roles) fns)))"


definition iamRoleHasTags_run :: "helpers \<Rightarrow> cache \<Rightarrow> run_outcome" where
  "iamRoleHasTags_run h c =
     Calls_back None
       (Some (concat (map (check_region has_tags_function ''No Lambda functions found'' h c)
                        (regions_lambda h))))"

subsection \<open>The remediation of the shared-role check\<close>

text \<open>
  \<open>remediate(config, cache, settings, resource, callback)\<close> of the check
  \<open>Lambda Function can share Multiple Roles\<close>. The steps that touch the remediation
  file or the provider are recorded in the order they happen. The cache lookup of the
  created role is keyed here by the new role's name; the lookup for \<open>attachRolePolicy\<close>
  and the assignment to \<open>config.region\<close> change nothing that is recorded.
\<close>

datatype rem_step =
    Pre_recorded jv
  | Provider_action string string string
  | Error_recorded jv
  | Post_recorded jv

definition after_last :: "char \<Rightarrow> string \<Rightarrow> string" where
  \<comment> \<open>\<open>s.split(c).pop()\<close>\<close>
  "after_last c s = rev (takeWhile (\<lambda>x. x \<noteq> c) (rev s))"

definition function_name :: "string \<Rightarrow> string" where
  \<comment> \<open>\<open>resource.split(':').pop().split('/').pop()\<close>\<close>
  "function_name res = after_last (CHR ''/'') (after_last (CHR '':'') res)"

definition pluginName :: string where
  "pluginName = ''lambdaUniqueRole''"

definition basicPolicy :: string where
  "basicPolicy = ''arn:aws:iam::aws:policy/service-role/AWSLambdaBasicExecutionRole''"

definition old_role_cell :: "jtext \<Rightarrow> jv" where
  \<comment> \<open>\<open>{ 'OldRole': oldRoleArn }\<close>\<close>
  "old_role_cell r =
     JObj [(''OldRole'', (case r of Undefined \<Rightarrow> JUndefined | Null \<Rightarrow> JNull | Text a \<Rightarrow> JStr a))]"

definition lambdaMultipleRole_remediate ::
  "helpers \<Rightarrow> cache \<Rightarrow> jtext \<Rightarrow> jv \<Rightarrow> rem_step list \<times> jv \<times> rem_outcome" where
  "lambdaMultipleRole_remediate h c resource_arg file =
     (case resource_arg of
        Undefined \<Rightarrow> ([], file, Rem_throws ''TypeError: Cannot read properties of undefined (reading split)'')
      | Null \<Rightarrow> ([], file, Rem_throws ''TypeError: Cannot read properties of null (reading split)'')
      | Text res \<Rightarrow>
          let functionName = function_name res;
              reg = defaultRegion h
          in
          (case function_config c reg functionName of
             None \<Rightarrow> ([], file, Rem_error ''Unable to get Lambda function details'')
           | Some lambdaConfig \<Rightarrow>
               let oldRoleArn = Role lambdaConfig;
                   newRoleName = functionName @ ''-execution-role''
               in
               (case entry_role (createRole c reg newRoleName) of
                  None \<Rightarrow> ([], file, Rem_error ''Unable to create IAM role for Lambda'')
                | Some newRole \<Rightarrow>
                    let newRoleArn = Arn newRole in
                    (case jset_path file [''pre_remediate'', ''actions'', pluginName, res]
                            (old_role_cell oldRoleArn) of
                       None \<Rightarrow> ([], file, Rem_throws ''TypeError: Cannot set properties of undefined'')
                     | Some file1 \<Rightarrow>
                         let act = Provider_action ''iam:createRole'' functionName newRoleArn;
                             answer = remediatePlugin h ''iam:createRole'' functionName newRoleArn
                         in
                         if truthy_str answer
                         then
                           (case jset_path file1 [''remediate'', ''actions'', pluginName, ''error'']
                                   (JStr (case answer of Some x \<Rightarrow> x | None \<Rightarrow> [])) of
                              None \<Rightarrow> ([Pre_recorded file1, act], file1,
                                        Rem_throws ''TypeError: Cannot set properties of undefined'')
                            | Some file2 \<Rightarrow>
                                ([Pre_recorded file1, act, Error_recorded file2], file2,
                                 Rem_error (case answer of Some x \<Rightarrow> x | None \<Rightarrow> [])))
                         else
                           (case Option.bind
                                   (jset_path file1 [''post_remediate'', ''actions'', pluginName, res]
                                      (JObj [(''NewRole'', JStr newRoleArn),
                                             (''AttachedPolicy'', JStr basicPolicy)]))
                                   (\<lambda>f. jset_path f [''remediate'', ''actions'', pluginName, res]
                                      (JObj [(''Action'', JStr ''UniqueExecutionRole''),
                                             (''Lambda'', JStr functionName)])) of
                              None \<Rightarrow> ([Pre_recorded file1, act], file1,
                                        Rem_throws ''TypeError: Cannot set properties of undefined'')
                            | Some file2 \<Rightarrow>
                                ([Pre_recorded file1, act, Post_recorded file2], file2,
                                 Rem_done (''FunctionName: '' @ functionName @ '', Role: '' @ newRoleArn @
                                           '', action: iam:createRole,iam:attachRolePolicy,'' @
                                           ''lambda:updateFunctionConfiguration'')))))))"

section \<open>Delivering results\<close>

definition kept :: "env \<Rightarrow> string \<Rightarrow> result list \<Rightarrow> result list" where
  "kept e key rs = filter (\<lambda>r. \<not> suppressionFilter e (suppression_key key r)) rs"

definition cells :: "string \<Rightarrow> jtext \<Rightarrow> (string \<times> jv) list" where
  \<comment> \<open>the cells \<open>initializeFile\<close> creates under \<open>actions\<close> of an empty file: none for a name
      that every object inherits, since the test then finds the inherited value\<close>
  "cells key res =
     (if key \<in> set object_prototype then []
      else [(key, JObj (if prop_key res \<in> set object_prototype then [] else [(prop_key res, JObj [])]))])"

definition fresh_file :: "string \<Rightarrow> jtext \<Rightarrow> jv" where
  \<comment> \<open>what \<open>initializeFile({}, 'execute', key, resource)\<close> returns\<close>
  "fresh_file key res =
     JObj [(''access'', JObj []),
       (''pre_remediate'', JObj [(''actions'', JObj (cells key res))]),
       (''post_remediate'', JObj [(''actions'', JObj (cells key res))]),
       (''remediate'', JObj [(''actions'', JObj (cells key res))])]"

lemma object_prototype_plain [simp]:
  "''access'' \<notin> set object_prototype" "''pre_remediate'' \<notin> set object_prototype"
  "''post_remediate'' \<notin> set object_prototype" "''remediate'' \<notin> set object_prototype"
  "''actions'' \<notin> set object_prototype"
  by (simp_all add: object_prototype_def)

lemma initializeFile_empty:
  "initializeFile (JObj []) t key res = Some (fresh_file key res)"
proof (cases "key \<in> set object_prototype")
  case True
  then show ?thesis
    by (simp add: initializeFile_def ensure_def truthy_jv_def fresh_file_def cells_def Let_def)
next
  case False
  then show ?thesis
    by (cases "prop_key res \<in> set object_prototype")
       (simp_all add: initializeFile_def ensure_def truthy_jv_def fresh_file_def cells_def Let_def)
qed

definition remediate_throws :: "string \<Rightarrow> plugin \<Rightarrow> result \<Rightarrow> bool" where
  \<comment> \<open>calling \<open>plugin.remediate\<close> for this result ends in an exception\<close>
  "remediate_throws key p r =
     (case p_remediate p of
        None \<Rightarrow> True
      | Some f \<Rightarrow> (case f (resource r) (fresh_file key (resource r)) of
                    Rem_throws x \<Rightarrow> True | _ \<Rightarrow> False))"

lemma remediation_crashed:
  "crashed (remediation key p r st) = None \<longleftrightarrow> crashed st = None \<and> \<not> remediate_throws key p r"
  by (auto simp add: remediation_def initializeFile_empty remediate_throws_def Let_def
        split: option.splits rem_outcome.splits)

lemma remediation_verdict [simp]:
  "maximumStatus (remediation key p r st) = maximumStatus st"
  "written (remediation key p r st) = written st"
  by (simp_all add: remediation_def Let_def split: option.splits rem_outcome.splits)

lemma process_results_crashed_sticky:
  "crashed st \<noteq> None \<Longrightarrow> process_results e s key p rs st = st"
  by (cases rs) auto

definition unremediable :: "env \<Rightarrow> settings \<Rightarrow> string \<Rightarrow> plugin \<Rightarrow> result list \<Rightarrow> bool" where
  "unremediable e s key p rs \<longleftrightarrow>
     remediation_requested s key \<and> (\<exists>r \<in> set (kept e key rs). status r = 2 \<and> remediate_throws key p r)"

lemma process_results_crashed:
  "crashed (process_results e s key p rs st) = None \<longleftrightarrow>
     crashed st = None \<and> \<not> unremediable e s key p rs"
proof (induction rs arbitrary: st)
  case Nil
  then show ?case by (simp add: unremediable_def kept_def)
next
  case (Cons r rs)
  show ?case
    by (auto simp add: Cons.IH unremediable_def kept_def remediation_crashed)
qed

fun max_list :: "nat list \<Rightarrow> nat" where
  "max_list [] = 0"
| "max_list (x # xs) = max x (max_list xs)"

lemma max_list_Max: "max_list xs = Max (insert 0 (set xs))"
proof (induction xs)
  case Nil
  then show ?case by simp
next
  case (Cons x xs)
  have "Max (insert 0 (set (x # xs))) = Max (insert x (insert 0 (set xs)))"
    by (simp add: insert_commute)
  also have "\<dots> = max x (Max (insert 0 (set xs)))"
    by (rule Max_insert) auto
  finally show ?case using Cons by simp
qed

lemma process_results_max:
  "crashed (process_results e s key p rs st) = None \<Longrightarrow>
   maximumStatus (process_results e s key p rs st) =
     max (maximumStatus st) (max_list (map status (kept e key rs)))"
proof (induction rs arbitrary: st)
  case Nil
  then show ?case by (simp add: kept_def)
next
  case (Cons r rs)
  have nc: "crashed st = None"
    using Cons.prems process_results_crashed [of e s key p "r # rs" st] by blast
  show ?case
  proof (cases "suppressionFilter e (suppression_key key r)")
    case True
    with Cons nc show ?thesis by (simp add: kept_def)
  next
    case False
    with Cons.prems nc Cons.IH show ?thesis
      by (simp add: kept_def max.assoc)
  qed
qed

definition deliver :: "env \<Rightarrow> settings \<Rightarrow> scan \<Rightarrow> string \<times> plugin \<times> result list option \<Rightarrow> scan" where
  "deliver e s st d = (case d of (key, p, results) \<Rightarrow> postRun e s key p None results st)"

definition pipeline :: "env \<Rightarrow> settings \<Rightarrow> (string \<times> plugin \<times> result list option) list \<Rightarrow> scan \<Rightarrow> scan" where
  "pipeline e s ds st = foldl (deliver e s) st ds"

definition results_of :: "result list option \<Rightarrow> result list" where
  "results_of results = (case results of None \<Rightarrow> [] | Some rs \<Rightarrow> rs)"

definition non_suppressed :: "env \<Rightarrow> (string \<times> plugin \<times> result list option) list \<Rightarrow> result list" where
  "non_suppressed e ds = concat (map (\<lambda>(key, p, results). kept e key (results_of results)) ds)"

definition fatal :: "env \<Rightarrow> settings \<Rightarrow> string \<times> plugin \<times> result list option \<Rightarrow> bool" where
  "fatal e s d = (case d of (key, p, results) \<Rightarrow> unremediable e s key p (results_of results))"

lemma postRun_crashed:
  "crashed (postRun e s key p None results st) = None \<longleftrightarrow>
     crashed st = None \<and> \<not> unremediable e s key p (results_of results)"
  by (cases results)
     (auto simp add: postRun_def truthy_str_def nonempty_arr_def Let_def results_of_def
        process_results_crashed unremediable_def kept_def)

lemma postRun_max:
  "crashed (postRun e s key p None results st) = None \<Longrightarrow>
   maximumStatus (postRun e s key p None results st) =
     max (maximumStatus st) (max_list (map status (kept e key (results_of results))))"
  by (cases results)
     (auto simp add: postRun_def truthy_str_def nonempty_arr_def Let_def results_of_def
        process_results_max kept_def)

lemma max_list_append: "max_list (xs @ ys) = max (max_list xs) (max_list ys)"
  by (induction xs) (auto simp add: max.assoc)

lemma pipeline_crashed:
  "crashed (pipeline e s ds st) = None \<longleftrightarrow> crashed st = None \<and> (\<forall>d \<in> set ds. \<not> fatal e s d)"
proof (induction ds arbitrary: st)
  case Nil
  then show ?case by (simp add: pipeline_def)
next
  case (Cons d ds)
  obtain key p results where d: "d = (key, p, results)" by (cases d)
  have "pipeline e s (d # ds) st = pipeline e s ds (postRun e s key p None results st)"
    by (simp add: pipeline_def deliver_def d)
  then show ?case
    using Cons.IH [of "postRun e s key p None results st"]
    by (auto simp add: postRun_crashed fatal_def d)
qed

lemma pipeline_max:
  "crashed (pipeline e s ds st) = None \<Longrightarrow>
   maximumStatus (pipeline e s ds st) =
     max (maximumStatus st) (max_list (map status (non_suppressed e ds)))"
proof (induction ds arbitrary: st)
  case Nil
  then show ?case by (simp add: pipeline_def non_suppressed_def)
next
  case (Cons d ds)
  obtain key p results where d: "d = (key, p, results)" by (cases d)
  let ?st = "postRun e s key p None results st"
  have step: "pipeline e s ((key, p, results) # ds) st = pipeline e s ds ?st"
    by (simp add: pipeline_def deliver_def)
  with Cons.prems have c: "crashed (pipeline e s ds ?st) = None" by (simp add: d)
  then have c1: "crashed ?st = None" by (simp add: pipeline_crashed)
  have "maximumStatus (pipeline e s ds ?st) =
          max (maximumStatus ?st) (max_list (map status (non_suppressed e ds)))"
    by (rule Cons.IH [OF c])
  then show ?case
    by (simp add: step postRun_max [OF c1] non_suppressed_def d max_list_append max.assoc)
qed


subsection \<open>Suppressed results\<close>

lemma process_results_kept:
  "process_results e s key p rs st = process_results e s key p (kept e key rs) st"
  by (induction rs arbitrary: st) (auto simp add: kept_def process_results_crashed_sticky)

lemma process_results_written:
  "set (written (process_results e s key p rs st))
     \<subseteq> set (written st) \<union> (\<lambda>r. (r, key, complianceMsg s p)) ` set (kept e key rs)"
proof (induction rs arbitrary: st)
  case Nil
  then show ?case by simp
next
  case (Cons r rs)
  show ?case
  proof (cases "crashed st \<noteq> None \<or> suppressionFilter e (suppression_key key r)")
    case True
    then show ?thesis using Cons.IH [of st] by (auto simp add: kept_def)
  next
    case False
    let ?st = "(if remediation_requested s key \<and> status r = 2 then remediation key p r else id)
             (st\<lparr>resultsObject := results_push (title p) r (resultsObject st),
                 written := written st @ [(r, key, complianceMsg s p)],
                 maximumStatus := max (maximumStatus st) (status r)\<rparr>)"
    have w: "written ?st = written st @ [(r, key, complianceMsg s p)]" by simp
    have "process_results e s key p (r # rs) st = process_results e s key p rs ?st"
      using False by simp
    then show ?thesis using Cons.IH [of ?st] False unfolding w by (auto simp add: kept_def)
  qed
qed

lemma suppression_key_eq:
  "suppression_key key r =
     key @ '':'' @ (case region r of Text v \<Rightarrow> if v = [] then ''any'' else v | _ \<Rightarrow> ''any'') @
     '':'' @ (case resource r of Text v \<Rightarrow> if v = [] then ''any'' else v | _ \<Rightarrow> ''any'')"
  by (simp add: suppression_key_def or_any_def truthy_text_def split: jtext.splits)

lemma postRun_all_suppressed:
  assumes "\<forall>r \<in> set rs. suppressionFilter e (suppression_key key r)"
  shows "written (postRun e s key p er (Some rs) st) = written st
       \<and> maximumStatus (postRun e s key p er (Some rs) st) = maximumStatus st
       \<and> rem_trace (postRun e s key p er (Some rs) st) = rem_trace st"
proof -
  have "kept e key rs = []" using assms by (simp add: kept_def)
  then have "process_results e s key p rs st' = st'" for st'
    using process_results_kept [of e s key p rs st'] by simp
  then show ?thesis by (simp add: postRun_def Let_def)
qed

subsection \<open>The remediation calls\<close>









lemma pluginName_plain [simp]: "pluginName \<notin> set object_prototype"
  by (simp add: pluginName_def object_prototype_def)






subsection \<open>The role lookup of the Lambda checks\<close>

definition not_found :: "string \<Rightarrow> string \<Rightarrow> lambda_function \<Rightarrow> result" where
  "not_found arn reg fn = addResult 2 (''Assigned IAM role NOT found: '' @ arn) reg (FunctionArn fn)"


lemma role_check_not_found:
  "not_found arn reg fn \<in> set (role_check c reg roles fn arn) \<longleftrightarrow>
     (\<forall>r \<in> set roles. \<not> suffix (RoleName r) arn)"
proof (cases "find (\<lambda>r. suffix (RoleName r) arn) roles")
  case None
  then have "\<forall>r \<in> set roles. \<not> suffix (RoleName r) arn"
    by (simp add: find_None_iff)
  with None show ?thesis
    by (simp add: role_check_def not_found_def)
next
  case (Some roleObj)
  then have "\<exists>r \<in> set roles. suffix (RoleName r) arn"
    by (auto simp add: find_Some_iff)
  with Some show ?thesis
    by (auto simp add: role_check_def not_found_def addResult_def split: option.splits)
qed












text \<open>
  The file \<open>iamRoleHasTags.js\<close> holds the same lookup. (As given, the file goes on after the
  check with a test suite that declares \<open>helpers\<close> a second time, so the statement is about
  the function \<open>run\<close> as it is written there.)
\<close>

lemma has_tags_function_lookup:
  assumes "FunctionName fn = Some name" and "name \<noteq> []"
    and "function_config c reg name = Some lambdaConfig"
    and "Role lambdaConfig = Text arn" and "arn \<noteq> []"
  shows "not_found arn reg fn \<in> set (has_tags_function h c reg roles fn) \<longleftrightarrow>
            (\<forall>r \<in> set roles. \<not> suffix (RoleName r) arn)"
proof -
  have t: "has_tags_function h c reg roles fn =
             addResult 0 (''Lambda function \"'' @ name @ ''\" configuration retrieved successfully'')
               reg (FunctionArn fn) # role_check c reg roles fn arn"
    using assms by (simp add: has_tags_function_def truthy_str_def truthy_text_def)
  have ne: "not_found arn reg fn \<noteq>
      addResult 0 (''Lambda function \"'' @ name @ ''\" configuration retrieved successfully'')
               reg (FunctionArn fn)"
    by (simp add: not_found_def addResult_def)
  show ?thesis
    using ne by (simp add: t role_check_not_found)
qed

subsection \<open>The planner\<close>

definition is_selected :: "cloudConfig \<Rightarrow> settings \<Rightarrow> string \<Rightarrow> plugin \<Rightarrow> bool" where
  "is_selected cfg s pluginId p =
     (case selection cfg s pluginId p of Inl x \<Rightarrow> False | Inr (skip, dbg) \<Rightarrow> \<not> skip)"

definition is_skipped :: "cloudConfig \<Rightarrow> settings \<Rightarrow> string \<Rightarrow> plugin \<Rightarrow> bool" where
  "is_skipped cfg s pluginId p =
     (case selection cfg s pluginId p of Inl x \<Rightarrow> False | Inr (skip, dbg) \<Rightarrow> skip)"

definition opted :: "settings \<Rightarrow> string \<Rightarrow> bool" where
  \<comment> \<open>\<open>settings.remediate && settings.remediate.includes(pluginId)\<close>\<close>
  "opted s pluginId = (case remediate s of None \<Rightarrow> False | Some rs \<Rightarrow> pluginId \<in> set rs)"

definition listed :: "string list option \<Rightarrow> string list" where
  "listed xs = (case xs of None \<Rightarrow> [] | Some v \<Rightarrow> v)"

definition requested :: "cloudConfig \<Rightarrow> settings \<Rightarrow> string \<times> plugin \<Rightarrow> string list" where
  "requested cfg s e =
     (case e of (pluginId, p) \<Rightarrow>
        if is_selected cfg s pluginId p
        then listed (apis p) @ (if opted s pluginId then listed (apis_remediate p) else [])
        else [])"

lemma set_add_apis [simp]: "set (add_apis as calls) = set as \<union> set calls"
  by (induction as arbitrary: calls) auto

lemma plan_step_crashed_sticky: "crashed st \<noteq> None \<Longrightarrow> plan_step cfg s st e = st"
  by (cases e) (simp add: plan_step_def)

lemma plan_crashed_sticky: "crashed st \<noteq> None \<Longrightarrow> plan cfg s ps st = st"
  unfolding plan_def by (induction ps) (simp_all add: plan_step_crashed_sticky)

lemma plan_Cons: "plan cfg s (e # ps) st = plan cfg s ps (plan_step cfg s st e)"
  by (simp add: plan_def)

lemma plan_step_calls:
  assumes "crashed (plan_step cfg s st e) = None"
  shows "set (apiCalls (plan_step cfg s st e)) = set (apiCalls st) \<union> set (requested cfg s e)"
proof -
  obtain pluginId p where e: "e = (pluginId, p)" by (cases e)
  have nc: "crashed st = None"
    using assms plan_step_crashed_sticky [of st cfg s e] by (cases "crashed st") auto
  show ?thesis
    using assms nc unfolding e
    by (auto simp add: plan_step_def requested_def is_selected_def opted_def listed_def Let_def
          split: sum.splits option.splits if_splits prod.splits)
qed

lemma plan_calls:
  "crashed (plan cfg s ps st) = None \<Longrightarrow>
   set (apiCalls (plan cfg s ps st)) = set (apiCalls st) \<union> (\<Union>e \<in> set ps. set (requested cfg s e))"
proof (induction ps arbitrary: st)
  case Nil
  then show ?case by (simp add: plan_def)
next
  case (Cons e ps)
  have c: "crashed (plan cfg s ps (plan_step cfg s st e)) = None"
    using Cons.prems by (simp add: plan_Cons)
  have c1: "crashed (plan_step cfg s st e) = None"
    using c plan_crashed_sticky [of "plan_step cfg s st e" cfg s ps]
    by (cases "crashed (plan_step cfg s st e)") auto
  show ?case
    using Cons.IH [OF c] plan_step_calls [OF c1] by (auto simp add: plan_Cons)
qed

lemma plan_selected_has_apis:
  "crashed (plan cfg s ps st) = None \<Longrightarrow> crashed st = None \<Longrightarrow> (pluginId, p) \<in> set ps \<Longrightarrow>
   is_selected cfg s pluginId p \<Longrightarrow> apis p \<noteq> None"
proof (induction ps arbitrary: st)
  case Nil
  then show ?case by simp
next
  case (Cons e ps)
  have c: "crashed (plan cfg s ps (plan_step cfg s st e)) = None"
    using Cons.prems(1) by (simp add: plan_Cons)
  have c1: "crashed (plan_step cfg s st e) = None"
    using c plan_crashed_sticky [of "plan_step cfg s st e" cfg s ps]
    by (cases "crashed (plan_step cfg s st e)") auto
  show ?case
  proof (cases "e = (pluginId, p)")
    case True
    then show ?thesis
      using c1 Cons.prems(2,4)
      by (auto simp add: plan_step_def is_selected_def throw_def Let_def
            split: sum.splits option.splits if_splits prod.splits)
  next
    case False
    then show ?thesis using Cons.IH [OF c c1] Cons.prems(3,4) by auto
  qed
qed

lemma plan_skipped:
  "crashed (plan cfg s ps st) = None \<Longrightarrow>
   skippedPlugins (plan cfg s ps st) =
     skippedPlugins st @ map fst (filter (\<lambda>(pluginId, p). is_skipped cfg s pluginId p) ps)"
proof (induction ps arbitrary: st)
  case Nil
  then show ?case by (simp add: plan_def)
next
  case (Cons e ps)
  obtain pluginId p where e: "e = (pluginId, p)" by (cases e)
  have c: "crashed (plan cfg s ps (plan_step cfg s st e)) = None"
    using Cons.prems(1) by (simp add: plan_Cons)
  have c1: "crashed (plan_step cfg s st e) = None"
    using c plan_crashed_sticky [of "plan_step cfg s st e" cfg s ps]
    by (cases "crashed (plan_step cfg s st e)") auto
  have nc: "crashed st = None"
    using c1 plan_step_crashed_sticky [of st cfg s e] by (cases "crashed st") auto
  have "skippedPlugins (plan_step cfg s st e) =
          skippedPlugins st @ (if is_skipped cfg s pluginId p then [pluginId] else [])"
    using c1 nc unfolding e
    by (auto simp add: plan_step_def is_skipped_def throw_def Let_def
          split: sum.splits option.splits if_splits prod.splits)
  then show ?case
    using Cons.IH [OF c] by (simp add: plan_Cons e)
qed


lemma add_apis_Nil: "add_apis as calls = [] \<longleftrightarrow> as = [] \<and> calls = []"
  using set_add_apis [of as calls] by (metis Un_empty set_empty)

lemma start_Inr:
  "start s plugins = Inr st1 \<Longrightarrow>
     crashed st1 = None \<and> apiCalls st1 = [] \<and> skippedPlugins st1 = [] \<and> written st1 = []
     \<and> maximumStatus st1 = 0 \<and> exitCode st1 = None \<and> \<not> joined st1 \<and> \<not> output_closed st1"
  by (auto simp add: start_def scan0_def Let_def split: if_splits option.splits)

definition plan_fails :: "cloudConfig \<Rightarrow> settings \<Rightarrow> string \<times> plugin \<Rightarrow> bool" where
  \<comment> \<open>the planning loop throws at this entry\<close>
  "plan_fails cfg s e =
     (case e of (pluginId, p) \<Rightarrow>
        (case selection cfg s pluginId p of
           Inl x \<Rightarrow> True
         | Inr (skip, dbg) \<Rightarrow>
             \<not> skip \<and> (apis p = None \<or> (opted s pluginId \<and> apis_remediate p = None))))"

lemma plan_step_crashed:
  "crashed (plan_step cfg s st e) = None \<longleftrightarrow> crashed st = None \<and> \<not> plan_fails cfg s e"
  by (cases e)
     (auto simp add: plan_step_def plan_fails_def opted_def throw_def Let_def
        split: sum.splits option.splits if_splits prod.splits)

lemma plan_crashed:
  "crashed (plan cfg s ps st) = None \<longleftrightarrow> crashed st = None \<and> (\<forall>e \<in> set ps. \<not> plan_fails cfg s e)"
  by (induction ps arbitrary: st) (auto simp add: plan_Cons plan_step_crashed plan_def)

lemma selection_remediate [simp]: "selection cfg (s\<lparr>remediate := r\<rparr>) pluginId p = selection cfg s pluginId p"
  by (simp add: selection_def cong: sum.case_cong option.case_cong)

lemma selection_apis_remediate [simp]:
  "selection cfg s pluginId (p\<lparr>apis_remediate := x\<rparr>) = selection cfg s pluginId p"
  by (simp add: selection_def compliance_hit_def compliance_text_def
        cong: sum.case_cong option.case_cong prod.case_cong if_cong)

lemma plan_step_not_opted:
  "\<not> opted s pluginId \<Longrightarrow>
   plan_step cfg s st (pluginId, p\<lparr>apis_remediate := x\<rparr>) = plan_step cfg s st (pluginId, p)"
  by (auto simp add: plan_step_def opted_def Let_def split: sum.splits option.splits prod.splits)

lemma plan_not_opted:
  "\<not> opted s pluginId \<Longrightarrow>
   plan cfg s (map (\<lambda>(i, q). if i = pluginId then (i, q\<lparr>apis_remediate := x\<rparr>) else (i, q)) ps) st =
   plan cfg s ps st"
proof (induction ps arbitrary: st)
  case Nil
  then show ?case by simp
next
  case (Cons e ps)
  obtain i q where e: "e = (i, q)" by (cases e)
  show ?case
    using Cons.IH [OF Cons.prems] Cons.prems
    by (simp add: plan_Cons e plan_step_not_opted)
qed

definition is_error :: "string \<Rightarrow> bool" where
  "is_error line = prefix ''ERROR: '' line"

definition nothing_to_scan_message :: "settings \<Rightarrow> (string \<times> plugin) list \<Rightarrow> string" where
  "nothing_to_scan_message s plugins =
     (case start s plugins of
        Inl stopped \<Rightarrow> ''ERROR: Invalid plugin: '' @ (case plugin s of Some name \<Rightarrow> name | None \<Rightarrow> [])
      | Inr st \<Rightarrow> ''ERROR: Nothing to collect.'')"

lemma banner_no_error: "filter is_error (banner s) = []"
  by (simp add: banner_def is_error_def split: option.splits)

lemma selection_no_error: "selection cfg s pluginId p = Inr (skip, dbg) \<Longrightarrow> filter is_error dbg = []"
  by (auto simp add: selection_def is_error_def split: if_splits option.splits sum.splits prod.splits)

lemma plan_step_frame [simp]:
  "written (plan_step cfg s st e) = written st"
  "maximumStatus (plan_step cfg s st e) = maximumStatus st"
  "exitCode (plan_step cfg s st e) = exitCode st"
  "joined (plan_step cfg s st e) = joined st"
  "output_closed (plan_step cfg s st e) = output_closed st"
  by (cases e; simp add: plan_step_def throw_def Let_def split: sum.splits option.splits prod.splits)+

lemma plan_frame [simp]:
  "written (plan cfg s ps st) = written st"
  "maximumStatus (plan cfg s ps st) = maximumStatus st"
  "exitCode (plan cfg s ps st) = exitCode st"
  "joined (plan cfg s ps st) = joined st"
  "output_closed (plan cfg s ps st) = output_closed st"
  by (induction ps arbitrary: st; simp add: plan_def)+

lemma plan_step_skipped:
  assumes "crashed st = None" and "is_skipped cfg s pluginId p"
  shows "crashed (plan_step cfg s st (pluginId, p)) = None
       \<and> apiCalls (plan_step cfg s st (pluginId, p)) = apiCalls st
       \<and> filter is_error (log (plan_step cfg s st (pluginId, p))) = filter is_error (log st)"
proof -
  obtain dbg where sel: "selection cfg s pluginId p = Inr (True, dbg)"
    using assms(2) by (auto simp add: is_skipped_def split: sum.splits prod.splits)
  have "filter is_error dbg = []" by (rule selection_no_error [OF sel])
  then show ?thesis using assms(1) by (simp add: plan_step_def sel)
qed

lemma plan_all_skipped:
  "crashed st = None \<Longrightarrow> \<forall>(pluginId, p) \<in> set ps. is_skipped cfg s pluginId p \<Longrightarrow>
   crashed (plan cfg s ps st) = None \<and> apiCalls (plan cfg s ps st) = apiCalls st
   \<and> filter is_error (log (plan cfg s ps st)) = filter is_error (log st)"
proof (induction ps arbitrary: st)
  case Nil
  then show ?case by (simp add: plan_def)
next
  case (Cons e ps)
  obtain pluginId p where e: "e = (pluginId, p)" by (cases e)
  have sk: "is_skipped cfg s pluginId p" using Cons.prems(2) e by simp
  have rest: "\<forall>(pluginId, p) \<in> set ps. is_skipped cfg s pluginId p" using Cons.prems(2) by simp
  note step = plan_step_skipped [OF Cons.prems(1) sk]
  show ?case
    using Cons.IH [OF _ rest, of "plan_step cfg s st (pluginId, p)"] step
    by (simp add: plan_Cons e)
qed

subsection \<open>Checks that call back without an error\<close>















lemma process_results_frame [simp]:
  "output_closed (process_results e s key p rs st) = output_closed st"
  by (induction rs arbitrary: st) (simp_all add: remediation_def Let_def split: option.splits rem_outcome.splits)








lemma final_callback_fields [simp]:
  "running (final_callback cfg s er st) = running st"
  "done_flag (final_callback cfg s er st) = done_flag st"
  "skippedPlugins (final_callback cfg s er st) = skippedPlugins st"
  "written (final_callback cfg s er st) = written st"
  "\<not> joined st \<Longrightarrow> joined (final_callback cfg s er st)"
  "\<not> joined st \<Longrightarrow> \<not> truthy_str er \<Longrightarrow> output_closed (final_callback cfg s er st)"
  by (simp_all add: final_callback_def Let_def)








subsection \<open>Checks whose remediation does not throw\<close>






lemma postRun_frame [simp]:
  "skippedPlugins (postRun e s key p er res st) = skippedPlugins st"
  "joined (postRun e s key p er res st) = joined st"
  "output_closed (postRun e s key p er res st) = output_closed st"
  "done_flag (postRun e s key p er res st) = done_flag st"
  "running (postRun e s key p er res st) = running st"
  by (simp_all add: postRun_def Let_def)

lemma iteratee_frame [simp]:
  "skippedPlugins (iteratee e s key p st) = skippedPlugins st"
  "joined (iteratee e s key p st) = joined st"
  "output_closed (iteratee e s key p st) = output_closed st"
  "done_flag (iteratee e s key p st) = done_flag st"
  by (auto simp add: iteratee_def run_with_def Let_def throw_def split: option.splits run_outcome.splits)




lemma replenish_skipped [simp]:
  "skippedPlugins (replenish e cfg s q st) = skippedPlugins st"
proof (induction q arbitrary: st)
  case Nil
  then show ?case by simp
next
  case (Cons a q)
  obtain key p where a: "a = (key, p)" by (cases a)
  show ?case by (simp add: a Cons.IH)
qed




lemma pluginDone_skipped [simp]:
  "skippedPlugins (pluginDone e cfg s er st) = skippedPlugins st"
  by (simp add: pluginDone_def Let_def)





subsection \<open>A check that throws or never calls back\<close>











lemma postRun_error_log:
  "truthy_str er \<Longrightarrow>
   log (postRun e s key p er res st) = log st @ [''ERROR: '' @ (case er of Some m \<Rightarrow> m | None \<Rightarrow> [])]"
  by (simp add: postRun_def)

section \<open>Loading the engine module\<close>

text \<open>
  After \<open>module.exports = engine;\<close> the last line of the module goes on with statements
  that run when the module is loaded: an assignment to \<open>global['!']\<close>, a decoder that
  turns a literal into three names, two assignments to globals under these names, and a
  function that decodes a property name and two long string literals and hands the
  results to whatever \<open>sfL[EKc]\<close> is. The arithmetic stays far below \<open>2^53\<close>, so the
  numbers of the source are integers. The two long literals are parameters (\<open>joW\<close> and
  \<open>blob\<close>), and so is what calling compiled text returns (\<open>call\<close>). What loading does
  is given as the list of its actions that can be observed from outside.
\<close>

fun elem_at :: "'a list \<Rightarrow> int \<Rightarrow> 'a option" where
  \<comment> \<open>\<open>g[i]\<close>, \<open>None\<close> for \<open>undefined\<close>\<close>
  "elem_at [] i = None"
| "elem_at (x # xs) i = (if i = 0 then Some x else elem_at xs (i - 1))"

fun set_elem :: "'a list \<Rightarrow> int \<Rightarrow> 'a \<Rightarrow> 'a list" where
  "set_elem [] i v = []"
| "set_elem (x # xs) i v = (if i = 0 then v # xs else x # set_elem xs (i - 1) v)"

definition swap_at :: "'a list \<Rightarrow> int \<Rightarrow> int \<Rightarrow> 'a list" where
  \<comment> \<open>\<open>var y = g[t]; g[t] = g[p]; g[p] = y\<close> for indices inside the array\<close>
  "swap_at g t p =
     (case (elem_at g t, elem_at g p) of
        (Some a, Some b) \<Rightarrow> set_elem (set_elem g t b) p a
      | _ \<Rightarrow> g)"

record shuffle_key =
  a1 :: int
  m1 :: int
  a2 :: int
  m2 :: int
  md :: int

definition s_of :: "shuffle_key \<Rightarrow> int \<Rightarrow> int \<Rightarrow> int" where
  "s_of k j e = e * (j + a1 k) + e mod m1 k"

definition w_of :: "shuffle_key \<Rightarrow> int \<Rightarrow> int \<Rightarrow> int" where
  "w_of k j e = e * (j + a2 k) + e mod m2 k"

fun scramble :: "shuffle_key \<Rightarrow> 'b list \<Rightarrow> int \<Rightarrow> int \<Rightarrow> char list \<Rightarrow> char list" where
  \<comment> \<open>the second \<open>for\<close> loop of both decoders; the first list counts the rounds left\<close>
  "scramble k [] j e g = g"
| "scramble k (c # todo) j e g =
     scramble k todo (j + 1) ((s_of k j e + w_of k j e) mod md k)
       (swap_at g (s_of k j e mod int (length g)) (w_of k j e mod int (length g)))"

function split_from :: "string \<Rightarrow> string \<Rightarrow> string \<Rightarrow> string list" where
  "split_from sep acc [] = [rev acc]"
| "split_from sep acc (c # cs) =
     (if sep \<noteq> [] \<and> prefix sep (c # cs)
      then rev acc # split_from sep [] (drop (length sep) (c # cs))
      else split_from sep (c # acc) cs)"
  by pat_completeness auto
termination
  by (relation "measure (\<lambda>(sep, acc, s). length s)") (auto simp add: neq_Nil_conv)

definition split_on :: "string \<Rightarrow> string \<Rightarrow> string list" where
  \<comment> \<open>\<open>s.split(sep)\<close> for a separator that is not empty\<close>
  "split_on sep s = split_from sep [] s"

definition names_decoder :: "string \<Rightarrow> int \<Rightarrow> string list" where
  "names_decoder l e =
     (let g = scramble \<lparr>a1 = 489, m1 = 19597, a2 = 659, m2 = 48014, md = 4573868\<rparr> l 0 e l;
          x = [CHR 0x7F]
      in split_on x (join ''#'' (split_on ''#0'' (join ''%'' (split_on ''#1'' (join x (split_on ''%'' g)))))))"

definition sfL :: "string \<Rightarrow> string" where
  "sfL w = scramble \<lparr>a1 = 228, m1 = 50332, a2 = 128, m2 = 52119, md = 4289487\<rparr> w 0 2667686 w"

datatype gv = Str string | Require_function | Module_object | Engine_function

datatype action =
    Export gv
  | Set_global string gv
  | Compile string
  | Call_compiled string string
  | Type_error string

definition name_at :: "string list \<Rightarrow> int \<Rightarrow> string" where
  "name_at names i = (case elem_at names i of None \<Rightarrow> ''undefined'' | Some n \<Rightarrow> n)"

definition payload_actions :: "string \<Rightarrow> string \<Rightarrow> (string \<Rightarrow> string \<Rightarrow> string) \<Rightarrow> action list" where
  "payload_actions joW blob call =
     (let EKc = take 11 (sfL ''wuqktamceigynzbosdctpusocrjhrflovnxrt'') in
      if EKc = ''constructor''
      then
        (let src = sfL joW; pYd = call src (sfL blob)
         in [Compile src, Call_compiled src (sfL blob), Compile pYd, Call_compiled pYd ''2509''])
      else [Type_error ''dgC is not a function''])"

definition module_load :: "string \<Rightarrow> string \<Rightarrow> string \<Rightarrow> (string \<Rightarrow> string \<Rightarrow> string) \<Rightarrow> action list" where
  "module_load typeof_module joW blob call =
     (let names = names_decoder ''rmcej%otb%'' 2857687 in
      [Export Engine_function,
       Set_global ''!'' (Str ''7-1551''),
       Set_global (name_at names 0) Require_function] @
      (if elem_at names 1 = Some typeof_module then [Set_global (name_at names 2) Module_object] else []) @
      payload_actions joW blob call)"

lemma decoded_names: "names_decoder ''rmcej%otb%'' 2857687 = [''r'', ''object'', ''m'']"
  by (simp add: names_decoder_def swap_at_def s_of_def w_of_def split_on_def Let_def)

lemma decoded_property:
  "take 11 (sfL ''wuqktamceigynzbosdctpusocrjhrflovnxrt'') = ''constructor''"
  by (simp add: sfL_def swap_at_def s_of_def w_of_def)

section \<open>Example scans\<close>

definition ex_fail :: result where
  "ex_fail = \<lparr>status = 2, message = ''Assigned IAM role NOT found: arn:aws:iam::1:role/Y'',
              region = Text ''us-east-1'', resource = Text ''arn:aws:lambda:us-east-1:1:function:f''\<rparr>"

definition ex_ok :: result where
  "ex_ok = \<lparr>status = 0, message = ''No Lambda functions found. Pass.'',
            region = Text ''eu-west-1'', resource = Undefined\<rparr>"

definition ex_error :: result where
  "ex_error = \<lparr>status = 3, message = ''Unable to query IAM roles: denied'',
               region = Text ''us-east-1'', resource = Text ''arn:aws:iam::1:role/X''\<rparr>"

definition ex_plugin :: "string \<Rightarrow> run_outcome \<Rightarrow> plugin" where
  "ex_plugin t outcome =
     \<lparr>title = t, apis = Some [''Lambda:listFunctions'', ''IAM:listRoles''], apis_remediate = None,
      p_compliance = None, types = None, asl = None, run = outcome, p_remediate = None\<rparr>"

definition ex_settings :: settings where
  "ex_settings =
     \<lparr>cloud = ''aws'', plugin = None, compliance = None, remediate = None, suppress = None,
      govcloud = False, china = False, ignore_ok = False, skip_paginate = False,
      run_asl = False, exit_code = True\<rparr>"

definition ex_config :: cloudConfig where
  "ex_config = \<lparr>organization = False, has_remediate = False, blob_upload = False\<rparr>"

definition ex_env :: env where
  \<comment> \<open>one suppression rule, matching a single key exactly\<close>
  "ex_env =
     \<lparr>suppressionFilter = (\<lambda>k. k = ''roles:us-east-1:arn:aws:iam::1:role/X''),
      collector = Collected, azure_login = None,
      asl_current_version = ''1'', asl_installed = [''1'']\<rparr>"



definition ex_cache :: cache where
  "ex_cache =
     \<lparr>listFunctions = (\<lambda>reg. None),
      getFunction = (\<lambda>reg name. if name = ''f''
         then Some \<lparr>err = None,
                     data = Some \<lparr>Configuration = Some \<lparr>Role = Text ''arn:aws:iam::1:role/shared''\<rparr>\<rparr>\<rparr>
         else None),
      listRoles = (\<lambda>reg. None),
      getRole = (\<lambda>reg name. None),
      createRole = (\<lambda>reg name. Some \<lparr>err = None,
         data = Some \<lparr>data_Role = Some \<lparr>RoleName = name, Arn = ''arn:aws:iam::1:role/'' @ name\<rparr>\<rparr>\<rparr>)\<rparr>"



definition ex_helpers :: helpers where
  \<comment> \<open>the provider refuses the remediation call\<close>
  "ex_helpers =
     \<lparr>regions_lambda = [''us-east-1''], defaultRegion = ''us-east-1'',
      addError = (\<lambda>e. case e of None \<Rightarrow> ''no data'' | Some m \<Rightarrow> m),
      remediatePlugin = (\<lambda>call name arn. Some ''AccessDenied'')\<rparr>"

definition ex_remediable :: plugin where
  "ex_remediable =
     (ex_plugin ''Lambda Function can share Multiple Roles'' Never_calls_back)
       \<lparr>p_remediate := Some (\<lambda>res file. snd (snd (lambdaMultipleRole_remediate ex_helpers ex_cache res file)))\<rparr>"

definition ex_remediate_settings :: settings where
  "ex_remediate_settings = ex_settings\<lparr>remediate := Some [''lambdaUniqueRole'', ''roles'']\<rparr>"

definition ex_no_apis :: plugin where
  \<comment> \<open>a check that needs no API call and reports a failure\<close>
  "ex_no_apis = (ex_plugin ''Static check'' (Calls_back None (Some [ex_fail])))\<lparr>apis := Some []\<rparr>"

definition ex_with_remediation :: plugin where
  "ex_with_remediation = ex_remediable\<lparr>apis_remediate := Some [''IAM:getRole'', ''IAM:listRoles'']\<rparr>"

definition ex_catalog :: "(string \<times> plugin) list" where
  "ex_catalog =
     [(''lambdaUniqueRole'', ex_with_remediation),
      (''roles'', ex_plugin ''IAM roles'' (Calls_back None (Some [ex_error])))]"




definition ex_asl_catalog :: "(string \<times> plugin) list" where
  "ex_asl_catalog =
     [(''custom'', (ex_plugin ''Custom'' (Calls_back None (Some [ex_ok])))
                     \<lparr>asl := Some \<lparr>asl_version = Some ''9'', asl_run = Calls_back None (Some [ex_ok])\<rparr>\<rparr>),
      (''lambda'', ex_plugin ''Lambda roles'' (Calls_back None (Some [ex_ok, ex_fail])))]"

definition ex_deliveries :: "(string \<times> plugin \<times> result list option) list" where
  "ex_deliveries =
     [(''lambda'', ex_plugin ''Lambda roles'' Never_calls_back, Some [ex_ok, ex_fail]),
      (''roles'', ex_plugin ''IAM roles'' Never_calls_back, Some [ex_error])]"

section \<open>The aggregated verdict\<close>

text \<open>
  C1. Whatever results the executed checks deliver, and as long as no uncaught exception
  ends the scan, the running verdict \<open>maximumStatus\<close> is the largest status among the
  results that are not suppressed, it is 0 when there is none, and delivering the same
  results in another order gives the same verdict.
\<close>

theorem verdict_is_max:
  assumes "crashed st = None" and "maximumStatus st = 0"
    and "crashed (pipeline e s ds st) = None" and "mset ds' = mset ds"
  shows "maximumStatus (pipeline e s ds st) = Max (insert 0 (status ` set (non_suppressed e ds)))
       \<and> (non_suppressed e ds = [] \<longrightarrow> maximumStatus (pipeline e s ds st) = 0)
       \<and> maximumStatus (pipeline e s ds' st) = maximumStatus (pipeline e s ds st)"
proof -
  have m: "maximumStatus (pipeline e s ds st) = max_list (map status (non_suppressed e ds))"
    using pipeline_max [OF assms(3)] assms(2) by simp
  have sets: "set ds' = set ds" using assms(4) by (rule mset_eq_setD)
  then have c': "crashed (pipeline e s ds' st) = None"
    using assms(1,3) by (simp add: pipeline_crashed)
  have m': "maximumStatus (pipeline e s ds' st) = max_list (map status (non_suppressed e ds'))"
    using pipeline_max [OF c'] assms(2) by simp
  have "set (non_suppressed e ds') = set (non_suppressed e ds)"
    using sets by (simp add: non_suppressed_def)
  then show ?thesis
    by (simp add: m m' max_list_Max)
qed


theorem verdict_is_max_witness:
  "crashed scan0 = None \<and> maximumStatus scan0 = 0
   \<and> crashed (pipeline ex_env ex_settings ex_deliveries scan0) = None
   \<and> mset (rev ex_deliveries) = mset ex_deliveries
   \<and> status ` set (non_suppressed ex_env ex_deliveries) = {0, 2}
   \<and> maximumStatus (pipeline ex_env ex_settings ex_deliveries scan0) = 2
   \<and> maximumStatus (pipeline ex_env ex_settings (rev ex_deliveries) scan0) = 2
   \<and> non_suppressed ex_env [(''roles'', ex_plugin ''IAM roles'' Never_calls_back, Some [ex_error])] = []
   \<and> maximumStatus (pipeline ex_env ex_settings
         [(''roles'', ex_plugin ''IAM roles'' Never_calls_back, Some [ex_error])] scan0) = 0"
proof -
  have h1: "crashed scan0 = None" and h2: "maximumStatus scan0 = 0"
    by (simp_all add: scan0_def)
  have h3: "crashed (pipeline ex_env ex_settings ex_deliveries scan0) = None"
    by (simp add: pipeline_crashed h1 fatal_def unremediable_def remediation_requested_def
          ex_deliveries_def ex_settings_def)
  have h4: "mset (rev ex_deliveries) = mset ex_deliveries" by simp
  have ns: "status ` set (non_suppressed ex_env ex_deliveries) = {0, 2}"
    by (auto simp add: non_suppressed_def kept_def results_of_def ex_deliveries_def ex_env_def
          suppression_key_def or_any_def truthy_text_def truthy_str_def ex_ok_def ex_fail_def ex_error_def)
  let ?one = "[(''roles'', ex_plugin ''IAM roles'' Never_calls_back, Some [ex_error])]"
  have h5: "crashed (pipeline ex_env ex_settings ?one scan0) = None"
    by (simp add: pipeline_crashed h1 fatal_def unremediable_def remediation_requested_def
          ex_settings_def)
  have none: "non_suppressed ex_env ?one = []"
    by (simp add: non_suppressed_def kept_def results_of_def ex_env_def suppression_key_def
          or_any_def truthy_text_def truthy_str_def ex_error_def)
  have zero: "maximumStatus (pipeline ex_env ex_settings ?one scan0) = 0"
    using verdict_is_max [OF h1 h2 h5 refl] none by simp
  show ?thesis
    using verdict_is_max [OF h1 h2 h3 h4] h1 h2 h3 ns none zero by simp
qed


section \<open>Suppression\<close>

text \<open>
  C3. The suppression key of a result is the check id, the region and the resource
  joined by colons, with \<open>any\<close> in place of an absent (\<open>undefined\<close>, \<open>null\<close> or empty)
  region or resource.
  A result whose key the suppression filter matches changes nothing: processing the
  results is the same as processing those that are not suppressed, every result handed
  to the output handler is a non-suppressed one, and when all results are suppressed the
  output and the verdict stay as they were.
\<close>

theorem suppressed_results_dropped:
  "suppression_key key r =
     key @ '':'' @ (case region r of Text v \<Rightarrow> if v = [] then ''any'' else v | _ \<Rightarrow> ''any'') @
     '':'' @ (case resource r of Text v \<Rightarrow> if v = [] then ''any'' else v | _ \<Rightarrow> ''any'')
   \<and> process_results e s key p rs st =
       process_results e s key p (filter (\<lambda>r. \<not> suppressionFilter e (suppression_key key r)) rs) st
   \<and> (\<forall>w \<in> set (written (process_results e s key p rs st)).
         w \<in> set (written st) \<or>
         (fst w \<in> set rs \<and> \<not> suppressionFilter e (suppression_key key (fst w))))
   \<and> ((\<forall>r \<in> set rs. suppressionFilter e (suppression_key key r)) \<longrightarrow>
         written (postRun e s key p er (Some rs) st) = written st \<and>
         maximumStatus (postRun e s key p er (Some rs) st) = maximumStatus st)"
proof -
  have "\<forall>w \<in> set (written (process_results e s key p rs st)).
         w \<in> set (written st) \<or>
         (fst w \<in> set rs \<and> \<not> suppressionFilter e (suppression_key key (fst w)))"
    using process_results_written [of e s key p rs st] by (auto simp add: kept_def)
  then show ?thesis
    using process_results_kept [of e s key p rs st] postRun_all_suppressed [of rs e key s p er st]
    by (simp add: suppression_key_eq kept_def)
qed

theorem suppressed_results_dropped_witness:
  "suppression_key ''roles'' ex_error = ''roles:us-east-1:arn:aws:iam::1:role/X''
   \<and> suppressionFilter ex_env (suppression_key ''roles'' ex_error)
   \<and> written (postRun ex_env ex_settings ''roles'' (ex_plugin ''IAM roles'' Never_calls_back)
                 None (Some [ex_error]) scan0) = []
   \<and> maximumStatus (postRun ex_env ex_settings ''roles'' (ex_plugin ''IAM roles'' Never_calls_back)
                 None (Some [ex_error]) scan0) = 0
   \<and> map fst (written (process_results ex_env ex_settings ''roles''
                 (ex_plugin ''IAM roles'' Never_calls_back) [ex_ok, ex_error] scan0)) = [ex_ok]"
proof -
  have k: "filter (\<lambda>r. \<not> suppressionFilter ex_env (suppression_key ''roles'' r)) [ex_ok, ex_error]
             = [ex_ok]"
    by (simp add: ex_env_def suppression_key_def or_any_def truthy_text_def truthy_str_def ex_ok_def ex_error_def)
  have one: "map fst (written (process_results ex_env ex_settings ''roles''
                 (ex_plugin ''IAM roles'' Never_calls_back) [ex_ok] scan0)) = [ex_ok]"
    by (simp add: ex_env_def suppression_key_def or_any_def truthy_text_def truthy_str_def ex_ok_def scan0_def
          remediation_requested_def ex_settings_def)
  have two: "map fst (written (process_results ex_env ex_settings ''roles''
                 (ex_plugin ''IAM roles'' Never_calls_back) [ex_ok, ex_error] scan0)) = [ex_ok]"
    using suppressed_results_dropped [of "''roles''" ex_ok ex_env ex_settings
          "ex_plugin ''IAM roles'' Never_calls_back" "[ex_ok, ex_error]" scan0 None]
    unfolding k using one by simp
  show ?thesis
    using suppressed_results_dropped [of "''roles''" ex_error ex_env ex_settings
            "ex_plugin ''IAM roles'' Never_calls_back" "[ex_error]" scan0 None] two
    by (simp add: ex_error_def ex_env_def scan0_def)
qed

section \<open>Remediation\<close>




section \<open>The role lookup is a suffix match\<close>





section \<open>Planning\<close>

text \<open>
  C4, as the code has it. When the planning loop ends without an exception, the list of
  API calls contains the \<open>apis\<close> of every selected check; it is empty exactly when every
  selected check has an empty \<open>apis\<close> list (and an empty \<open>apis_remediate\<close> list if it is
  named in the remediation set), in particular when no check is selected; the skipped
  checks are exactly those the selection rejects, so a selected check with an empty
  \<open>apis\<close> list is not among them; and when the list is empty the engine prints
  \<open>ERROR: Nothing to collect.\<close> and stops before any check is executed.
\<close>

theorem planned_calls_cover_selected:
  assumes "start s plugins = Inr st1"
    and "planned = plan cfg s plugins (console ''INFO: Determining API calls to make...'' st1)"
    and "crashed planned = None"
  shows "(\<forall>(pluginId, p) \<in> set plugins. is_selected cfg s pluginId p \<longrightarrow>
            apis p \<noteq> None \<and> set (listed (apis p)) \<subseteq> set (apiCalls planned))
       \<and> (apiCalls planned = [] \<longleftrightarrow>
            (\<forall>(pluginId, p) \<in> set plugins. is_selected cfg s pluginId p \<longrightarrow>
               listed (apis p) = [] \<and> (opted s pluginId \<longrightarrow> listed (apis_remediate p) = [])))
       \<and> ((\<forall>(pluginId, p) \<in> set plugins. \<not> is_selected cfg s pluginId p) \<longrightarrow> apiCalls planned = [])
       \<and> skippedPlugins planned = map fst (filter (\<lambda>(pluginId, p). is_skipped cfg s pluginId p) plugins)
       \<and> (apiCalls planned = [] \<longrightarrow> engine e cfg s plugins = console ''ERROR: Nothing to collect.'' planned)"
proof -
  let ?st = "console ''INFO: Determining API calls to make...'' st1"
  have st: "crashed ?st = None" "apiCalls ?st = []" "skippedPlugins ?st = []"
    using start_Inr [OF assms(1)] by simp_all
  have c: "crashed (plan cfg s plugins ?st) = None" using assms(2,3) by simp
  have calls: "set (apiCalls planned) = (\<Union>e \<in> set plugins. set (requested cfg s e))"
    using plan_calls [OF c] st(2) assms(2) by simp
  have a: "\<forall>(pluginId, p) \<in> set plugins. is_selected cfg s pluginId p \<longrightarrow>
            apis p \<noteq> None \<and> set (listed (apis p)) \<subseteq> set (apiCalls planned)"
  proof (clarify, intro conjI)
    fix pluginId p
    assume m: "(pluginId, p) \<in> set plugins" and sel: "is_selected cfg s pluginId p"
    show "apis p \<noteq> None" by (rule plan_selected_has_apis [OF c st(1) m sel])
    have "set (listed (apis p)) \<subseteq> set (requested cfg s (pluginId, p))"
      using sel by (simp add: requested_def)
    then show "set (listed (apis p)) \<subseteq> set (apiCalls planned)"
      unfolding calls using m by blast
  qed
  have "apiCalls planned = [] \<longleftrightarrow> (\<forall>e \<in> set plugins. requested cfg s e = [])"
    using calls by (metis (no_types, lifting) SUP_bot_conv(2) set_empty)
  also have "\<dots> \<longleftrightarrow> (\<forall>(pluginId, p) \<in> set plugins. is_selected cfg s pluginId p \<longrightarrow>
               listed (apis p) = [] \<and> (opted s pluginId \<longrightarrow> listed (apis_remediate p) = []))"
    by (auto simp add: requested_def split: if_splits)
  finally have b: "apiCalls planned = [] \<longleftrightarrow>
            (\<forall>(pluginId, p) \<in> set plugins. is_selected cfg s pluginId p \<longrightarrow>
               listed (apis p) = [] \<and> (opted s pluginId \<longrightarrow> listed (apis_remediate p) = []))" .
  have d: "skippedPlugins planned = map fst (filter (\<lambda>(pluginId, p). is_skipped cfg s pluginId p) plugins)"
    using plan_skipped [OF c] st(3) assms(2) by simp
  have f: "apiCalls planned = [] \<longrightarrow> engine e cfg s plugins = console ''ERROR: Nothing to collect.'' planned"
    using assms by (simp add: engine_def Let_def)
  from a b d f show ?thesis by blast
qed

theorem planned_calls_cover_selected_witness:
  "start ex_settings ex_catalog = Inr scan0
   \<and> crashed (plan ex_config ex_settings ex_catalog
                 (console ''INFO: Determining API calls to make...'' scan0)) = None
   \<and> is_selected ex_config ex_settings ''roles'' (ex_plugin ''IAM roles'' (Calls_back None (Some [ex_error])))
   \<and> {''Lambda:listFunctions'', ''IAM:listRoles''}
         \<subseteq> set (apiCalls (plan ex_config ex_settings ex_catalog
                  (console ''INFO: Determining API calls to make...'' scan0)))
   \<and> skippedPlugins (plan ex_config ex_settings ex_catalog
                  (console ''INFO: Determining API calls to make...'' scan0)) = []"
proof -
  have h1: "start ex_settings ex_catalog = Inr scan0"
    by (simp add: start_def ex_settings_def banner_def truthy_str_def nonempty_arr_def scan0_def)
  have sel: "selection ex_config ex_settings pluginId p = Inr (False, [])" for pluginId p
    by (simp add: selection_def ex_settings_def truthy_str_def)
  have h3: "crashed (plan ex_config ex_settings ex_catalog
                 (console ''INFO: Determining API calls to make...'' scan0)) = None"
  proof -
    have "remediate ex_settings = None" by (simp add: ex_settings_def)
    then show ?thesis
      unfolding plan_crashed
      by (simp add: plan_fails_def sel ex_catalog_def ex_plugin_def ex_with_remediation_def
            ex_remediable_def opted_def scan0_def)
  qed
  have s1: "is_selected ex_config ex_settings ''roles''
              (ex_plugin ''IAM roles'' (Calls_back None (Some [ex_error])))"
    and s2: "\<not> is_skipped ex_config ex_settings pluginId p" for pluginId p
    by (simp_all add: is_selected_def is_skipped_def sel)
  have m: "(''roles'', ex_plugin ''IAM roles'' (Calls_back None (Some [ex_error]))) \<in> set ex_catalog"
    by (simp add: ex_catalog_def)
  have a: "listed (apis (ex_plugin ''IAM roles'' (Calls_back None (Some [ex_error])))) =
             [''Lambda:listFunctions'', ''IAM:listRoles'']"
    by (simp add: listed_def ex_plugin_def)
  note T = planned_calls_cover_selected [OF h1 refl h3, of ex_env]
  have "set (listed (apis (ex_plugin ''IAM roles'' (Calls_back None (Some [ex_error])))))
          \<subseteq> set (apiCalls (plan ex_config ex_settings ex_catalog
                  (console ''INFO: Determining API calls to make...'' scan0)))"
    using T [THEN conjunct1] m s1 by blast
  then have c1: "{''Lambda:listFunctions'', ''IAM:listRoles''}
         \<subseteq> set (apiCalls (plan ex_config ex_settings ex_catalog
                  (console ''INFO: Determining API calls to make...'' scan0)))"
    by (simp add: a)
  have c4: "skippedPlugins (plan ex_config ex_settings ex_catalog
                  (console ''INFO: Determining API calls to make...'' scan0)) = []"
    using T [THEN conjunct2, THEN conjunct2, THEN conjunct2, THEN conjunct1]
    by (simp add: s2)
  from h1 h3 s1 c1 c4 show ?thesis by blast
qed

text \<open>
  As stated the claim fails: a selected check with an empty \<open>apis\<close> list leaves the list
  of API calls empty although a check is selected, and the engine stops without
  executing it.
\<close>

theorem selected_check_without_apis_not_run:
  "is_selected ex_config ex_settings ''static'' ex_no_apis
   \<and> run ex_no_apis = Calls_back None (Some [ex_fail])
   \<and> apiCalls (engine ex_env ex_config ex_settings [(''static'', ex_no_apis)]) = []
   \<and> skippedPlugins (engine ex_env ex_config ex_settings [(''static'', ex_no_apis)]) = []
   \<and> written (engine ex_env ex_config ex_settings [(''static'', ex_no_apis)]) = []
   \<and> log (engine ex_env ex_config ex_settings [(''static'', ex_no_apis)]) =
         [''INFO: Determining API calls to make...'', ''ERROR: Nothing to collect.'']"
  by (simp add: is_selected_def selection_def engine_def start_def plan_def plan_step_def
        banner_def console_def ex_settings_def ex_no_apis_def ex_plugin_def truthy_str_def
        nonempty_arr_def scan0_def Let_def)

text \<open>
  C8. Take a selected check with \<open>apis_remediate\<close> whose id is in the remediation set, and
  the same settings with the id removed from that set. With the id the planned list
  contains the check's \<open>apis_remediate\<close>: it is the list planned without the id, plus
  these. Without the id the plan does not depend on the check's \<open>apis_remediate\<close> at all.
\<close>

theorem remediate_apis_only_when_opted:
  assumes "distinct (map fst plugins)" and "(pluginId, p) \<in> set plugins"
    and "is_selected cfg s pluginId p" and "apis_remediate p = Some ar"
    and "remediate s = Some rs" and "pluginId \<in> set rs"
    and "s' = s\<lparr>remediate := Some (removeAll pluginId rs)\<rparr>"
    and "crashed (plan cfg s plugins st) = None"
  shows "crashed (plan cfg s' plugins st) = None
       \<and> set ar \<subseteq> set (apiCalls (plan cfg s plugins st))
       \<and> set (apiCalls (plan cfg s plugins st)) = set (apiCalls (plan cfg s' plugins st)) \<union> set ar
       \<and> plan cfg s' (map (\<lambda>(i, q). if i = pluginId then (i, q\<lparr>apis_remediate := x\<rparr>) else (i, q)) plugins) st =
           plan cfg s' plugins st"
proof -
  have selq: "selection cfg s' i q = selection cfg s i q" for i q
    by (simp add: assms(7))
  have sel: "is_selected cfg s' i q = is_selected cfg s i q" for i q
    by (simp add: is_selected_def selq)
  have op': "opted s' i \<longleftrightarrow> opted s i \<and> i \<noteq> pluginId" for i
    using assms(5) by (auto simp add: opted_def assms(7))
  have "plan_fails cfg s' e \<Longrightarrow> plan_fails cfg s e" for e
    by (cases e) (auto simp add: plan_fails_def op' selq split: sum.splits prod.splits)
  then have c': "crashed (plan cfg s' plugins st) = None"
    using assms(8) by (auto simp add: plan_crashed)
  have other: "requested cfg s' (i, q) = requested cfg s (i, q)" if "i \<noteq> pluginId" for i q
    using that by (simp add: requested_def sel op')
  have no: "\<not> opted s' pluginId" by (simp add: op')
  have yes: "opted s pluginId" using assms(5,6) by (simp add: opted_def)
  have own: "requested cfg s (pluginId, p) = requested cfg s' (pluginId, p) @ ar"
    using assms(3,4) no yes by (simp add: requested_def sel listed_def)
  have uniq: "q = p" if "(pluginId, q) \<in> set plugins" for q
    using that assms(1,2) by (metis map_of_is_SomeI option.inject)
  have per: "set (requested cfg s e) =
               set (requested cfg s' e) \<union> (if fst e = pluginId then set ar else {})"
    if "e \<in> set plugins" for e
  proof (cases e)
    case (Pair i q)
    show ?thesis
    proof (cases "i = pluginId")
      case True
      with Pair that have "q = p" using uniq by simp
      with Pair True own show ?thesis by simp
    next
      case False
      with Pair other [OF False, of q] show ?thesis by simp
    qed
  qed
  have "(\<Union>e \<in> set plugins. set (requested cfg s e)) =
        (\<Union>e \<in> set plugins. set (requested cfg s' e) \<union> (if fst e = pluginId then set ar else {}))"
    using per by (intro SUP_cong) simp_all
  also have "\<dots> = (\<Union>e \<in> set plugins. set (requested cfg s' e)) \<union>
                   (\<Union>e \<in> set plugins. if fst e = pluginId then set ar else {})"
    by blast
  also have "(\<Union>e \<in> set plugins. if fst e = pluginId then set ar else {}) = set ar"
    using assms(2) by (force split: if_splits)
  finally have "(\<Union>e \<in> set plugins. set (requested cfg s e)) =
        (\<Union>e \<in> set plugins. set (requested cfg s' e)) \<union> set ar" .
  then have eq: "set (apiCalls (plan cfg s plugins st)) = set (apiCalls (plan cfg s' plugins st)) \<union> set ar"
    using plan_calls [OF assms(8)] plan_calls [OF c'] by auto
  show ?thesis
    using c' eq plan_not_opted [OF no, of cfg x plugins st] by auto
qed

theorem remediate_apis_only_when_opted_witness:
  "distinct (map fst ex_catalog) \<and> (''lambdaUniqueRole'', ex_with_remediation) \<in> set ex_catalog
   \<and> is_selected ex_config ex_remediate_settings ''lambdaUniqueRole'' ex_with_remediation
   \<and> apis_remediate ex_with_remediation = Some [''IAM:getRole'', ''IAM:listRoles'']
   \<and> remediate ex_remediate_settings = Some [''lambdaUniqueRole'', ''roles'']
   \<and> crashed (plan ex_config ex_remediate_settings
                 (map (\<lambda>(i, q). if i = ''roles'' then (i, q\<lparr>apis_remediate := Some []\<rparr>) else (i, q)) ex_catalog)
                 scan0) = None
   \<and> ''IAM:getRole'' \<in> set (apiCalls (plan ex_config ex_remediate_settings
                 (map (\<lambda>(i, q). if i = ''roles'' then (i, q\<lparr>apis_remediate := Some []\<rparr>) else (i, q)) ex_catalog)
                 scan0))
   \<and> apiCalls (plan ex_config (ex_remediate_settings\<lparr>remediate := Some [''roles'']\<rparr>)
                 (map (\<lambda>(i, q). if i = ''roles'' then (i, q\<lparr>apis_remediate := Some []\<rparr>) else (i, q)) ex_catalog)
                 scan0) = [''Lambda:listFunctions'', ''IAM:listRoles'']"
proof -
  let ?cat = "map (\<lambda>(i, q). if i = ''roles'' then (i, q\<lparr>apis_remediate := Some []\<rparr>) else (i, q)) ex_catalog"
  have cat: "?cat = [(''lambdaUniqueRole'', ex_with_remediation),
                     (''roles'', (ex_plugin ''IAM roles'' (Calls_back None (Some [ex_error])))
                                   \<lparr>apis_remediate := Some []\<rparr>)]"
    by (simp add: ex_catalog_def)
  have sel: "selection ex_config s' pluginId p = Inr (False, [])"
    if "plugin s' = None" "cloud s' = ''aws''" "compliance s' = None" for s' pluginId p
    using that by (simp add: selection_def truthy_str_def)
  have sel1: "selection ex_config ex_remediate_settings pluginId p = Inr (False, [])" for pluginId p
    by (rule sel) (simp_all add: ex_remediate_settings_def ex_settings_def)
  have h1: "distinct (map fst ?cat)" and h2: "(''lambdaUniqueRole'', ex_with_remediation) \<in> set ?cat"
    by (simp_all add: cat)
  have h3: "is_selected ex_config ex_remediate_settings ''lambdaUniqueRole'' ex_with_remediation"
    by (simp add: is_selected_def sel1)
  have h4: "apis_remediate ex_with_remediation = Some [''IAM:getRole'', ''IAM:listRoles'']"
    by (simp add: ex_with_remediation_def)
  have h5: "remediate ex_remediate_settings = Some [''lambdaUniqueRole'', ''roles'']"
    by (simp add: ex_remediate_settings_def)
  have h6: "''lambdaUniqueRole'' \<in> set [''lambdaUniqueRole'', ''roles'']" by simp
  have h7: "ex_remediate_settings\<lparr>remediate := Some [''roles'']\<rparr> =
            ex_remediate_settings\<lparr>remediate := Some (removeAll ''lambdaUniqueRole'' [''lambdaUniqueRole'', ''roles''])\<rparr>"
    by simp
  have h8: "crashed (plan ex_config ex_remediate_settings ?cat scan0) = None"
    unfolding plan_crashed cat
    by (simp add: plan_fails_def sel1 ex_plugin_def ex_with_remediation_def ex_remediable_def
          opted_def h5 scan0_def)
  have without: "apiCalls (plan ex_config (ex_remediate_settings\<lparr>remediate := Some [''roles'']\<rparr>) ?cat scan0)
                   = [''Lambda:listFunctions'', ''IAM:listRoles'']"
    unfolding cat
    by (simp add: plan_def plan_step_def sel1 ex_plugin_def ex_with_remediation_def ex_remediable_def
          scan0_def Let_def)
  have d: "distinct (map fst ex_catalog)" and m: "(''lambdaUniqueRole'', ex_with_remediation) \<in> set ex_catalog"
    by (simp_all add: ex_catalog_def)
  show ?thesis
    using remediate_apis_only_when_opted [OF h1 h2 h3 h4 h5 h6 h7 h8] d m h3 h4 h5 h8 without
    by simp
qed

text \<open>
  C5. When the selection rejects every check of the catalog, the engine stops before
  collecting anything and without an exception: the verdict stays 0 and no exit code is
  set, nothing is written to the output, and exactly one error line is printed, the
  last line of the log. That line is \<open>ERROR: Nothing to collect.\<close>, or
  \<open>ERROR: Invalid plugin: ...\<close> when \<open>settings.plugin\<close> names a check the catalog does
  not have.
\<close>

theorem nothing_to_scan:
  assumes "\<forall>(pluginId, p) \<in> set plugins. is_skipped cfg s pluginId p"
  shows "crashed (engine e cfg s plugins) = None
       \<and> maximumStatus (engine e cfg s plugins) = 0
       \<and> exitCode (engine e cfg s plugins) = None
       \<and> written (engine e cfg s plugins) = []
       \<and> \<not> output_closed (engine e cfg s plugins)
       \<and> filter is_error (log (engine e cfg s plugins)) = [nothing_to_scan_message s plugins]
       \<and> last (log (engine e cfg s plugins)) = nothing_to_scan_message s plugins"
proof (cases "start s plugins")
  case (Inl stopped)
  then obtain name where n: "plugin s = Some name"
    and st: "stopped = console (''ERROR: Invalid plugin: '' @ name) (scan0\<lparr>log := banner s\<rparr>)"
    by (auto simp add: start_def Let_def split: if_splits option.splits)
  have eng: "engine e cfg s plugins = stopped" by (simp add: engine_def Inl)
  have msg: "nothing_to_scan_message s plugins = ''ERROR: Invalid plugin: '' @ name"
    by (simp add: nothing_to_scan_message_def Inl n)
  show ?thesis
    unfolding eng msg st by (simp add: scan0_def banner_no_error is_error_def)
next
  case (Inr st1)
  let ?st = "console ''INFO: Determining API calls to make...'' st1"
  note s1 = start_Inr [OF Inr]
  have c: "crashed ?st = None" using s1 by simp
  note pl = plan_all_skipped [OF c assms]
  have "filter is_error (log st1) = []"
    using Inr
    by (auto simp add: start_def Let_def scan0_def banner_no_error is_error_def
          split: if_splits option.splits)
  then have lg: "filter is_error (log (plan cfg s plugins ?st)) = []"
    using pl by (simp add: is_error_def)
  have eng: "engine e cfg s plugins = console ''ERROR: Nothing to collect.'' (plan cfg s plugins ?st)"
    using pl s1 by (simp add: engine_def Inr Let_def)
  have msg: "nothing_to_scan_message s plugins = ''ERROR: Nothing to collect.''"
    by (simp add: nothing_to_scan_message_def Inr)
  show ?thesis
    unfolding eng msg using pl s1 lg by (simp add: is_error_def)
qed

theorem nothing_to_scan_witness:
  "is_skipped ex_config (ex_settings\<lparr>compliance := Some [''pci'']\<rparr>) ''lambdaUniqueRole'' ex_with_remediation
   \<and> is_skipped ex_config (ex_settings\<lparr>compliance := Some [''pci'']\<rparr>) ''roles''
         (ex_plugin ''IAM roles'' (Calls_back None (Some [ex_error])))
   \<and> map fst ex_catalog = [''lambdaUniqueRole'', ''roles'']
   \<and> maximumStatus (engine ex_env ex_config (ex_settings\<lparr>compliance := Some [''pci'']\<rparr>) ex_catalog) = 0
   \<and> written (engine ex_env ex_config (ex_settings\<lparr>compliance := Some [''pci'']\<rparr>) ex_catalog) = []
   \<and> filter is_error (log (engine ex_env ex_config (ex_settings\<lparr>compliance := Some [''pci'']\<rparr>) ex_catalog))
       = [''ERROR: Nothing to collect.'']"
proof -
  have h: "\<forall>(pluginId, p) \<in> set ex_catalog.
             is_skipped ex_config (ex_settings\<lparr>compliance := Some [''pci'']\<rparr>) pluginId p"
    by (simp add: is_skipped_def selection_def ex_catalog_def ex_settings_def ex_plugin_def
          ex_with_remediation_def ex_remediable_def truthy_str_def nonempty_arr_def)
  have m: "nothing_to_scan_message (ex_settings\<lparr>compliance := Some [''pci'']\<rparr>) ex_catalog
             = ''ERROR: Nothing to collect.''"
    by (simp add: nothing_to_scan_message_def start_def ex_settings_def truthy_str_def Let_def)
  have k: "map fst ex_catalog = [''lambdaUniqueRole'', ''roles'']"
    by (simp add: ex_catalog_def)
  from h have "is_skipped ex_config (ex_settings\<lparr>compliance := Some [''pci'']\<rparr>)
                 ''lambdaUniqueRole'' ex_with_remediation"
    and "is_skipped ex_config (ex_settings\<lparr>compliance := Some [''pci'']\<rparr>) ''roles''
           (ex_plugin ''IAM roles'' (Calls_back None (Some [ex_error])))"
    by (simp_all add: ex_catalog_def)
  then show ?thesis
    using nothing_to_scan [OF h, of ex_env] m k by simp
qed


section \<open>The join of the scheduler\<close>




text \<open>
  The same early return of \<open>postRun\<close> keeps the join open for a check whose callback
  reports an error: its sibling runs, but \<open>pluginDone\<close> is never called for it.
\<close>

lemma error_callback_keeps_join_open:
  "\<not> joined (executePlugins ex_env ex_config ex_settings
        [(''failing'', ex_plugin ''Failing'' (Calls_back (Some ''boom'') None)),
         (''lambda'', ex_plugin ''Lambda roles'' (Calls_back None (Some [ex_ok, ex_fail])))] scan0)
   \<and> running (executePlugins ex_env ex_config ex_settings
        [(''failing'', ex_plugin ''Failing'' (Calls_back (Some ''boom'') None)),
         (''lambda'', ex_plugin ''Lambda roles'' (Calls_back None (Some [ex_ok, ex_fail])))] scan0) = 1
   \<and> map fst (written (executePlugins ex_env ex_config ex_settings
        [(''failing'', ex_plugin ''Failing'' (Calls_back (Some ''boom'') None)),
         (''lambda'', ex_plugin ''Lambda roles'' (Calls_back None (Some [ex_ok, ex_fail])))] scan0))
       = [ex_ok, ex_fail]"
  by (simp add: executePlugins_def event_loop.simps pluginDone_def final_callback_def iteratee_def
        run_with_def postRun_def ex_plugin_def ex_env_def ex_settings_def ex_config_def scan0_def
        console_def nonempty_arr_def truthy_str_def suppression_key_def or_any_def truthy_text_def
        remediation_requested_def ex_ok_def ex_fail_def Let_def)

section \<open>The alternate runtime\<close>

text \<open>
  C6. The code contradicts the claim: when the runner for the check's ASL version cannot
  be loaded, the error is logged through \<open>postRun\<close>, but execution goes on to call the
  runner that was not loaded. The exception ends the scan: the next check is never
  started and the final callback is never called.
\<close>

theorem unknown_asl_version_ends_scan:
  "crashed (engine ex_env ex_config (ex_settings\<lparr>run_asl := True\<rparr>) ex_asl_catalog)
     = Some ''TypeError: aslRunner is not a function''
   \<and> ''ERROR: Error: ASL: Wrong ASL Version: ''
        \<in> set (log (engine ex_env ex_config (ex_settings\<lparr>run_asl := True\<rparr>) ex_asl_catalog))
   \<and> \<not> joined (engine ex_env ex_config (ex_settings\<lparr>run_asl := True\<rparr>) ex_asl_catalog)
   \<and> \<not> output_closed (engine ex_env ex_config (ex_settings\<lparr>run_asl := True\<rparr>) ex_asl_catalog)
   \<and> map fst (queue (engine ex_env ex_config (ex_settings\<lparr>run_asl := True\<rparr>) ex_asl_catalog)) = [''lambda'']
   \<and> written (engine ex_env ex_config (ex_settings\<lparr>run_asl := True\<rparr>) ex_asl_catalog) = []"
  by (simp add: engine_def start_def banner_def plan_def plan_step_def selection_def analyse_def
        executePlugins_def event_loop.simps iteratee_def run_with_def throw_def postRun_def
        ex_asl_catalog_def ex_plugin_def ex_env_def ex_settings_def ex_config_def scan0_def
        console_def nonempty_arr_def truthy_str_def Let_def)

section \<open>What loading the module does\<close>

text \<open>
  C9. Loading the module exports the engine and, besides, sets \<open>global['!']\<close>, stores
  \<open>require\<close> in the global \<open>r\<close> and \<open>module\<close> in the global \<open>m\<close> (the names come out of
  the decoder), and compiles and calls decoded text twice through the \<open>Function\<close>
  constructor, which it reaches as \<open>sfL['constructor']\<close>. So loading is not the same as
  binding the export.
\<close>

theorem module_load_has_side_effects:
  "module_load ''object'' joW blob call =
     [Export Engine_function,
      Set_global ''!'' (Str ''7-1551''),
      Set_global ''r'' Require_function,
      Set_global ''m'' Module_object,
      Compile (sfL joW),
      Call_compiled (sfL joW) (sfL blob),
      Compile (call (sfL joW) (sfL blob)),
      Call_compiled (call (sfL joW) (sfL blob)) ''2509'']
   \<and> module_load ''object'' joW blob call \<noteq> [Export Engine_function]"
  by (simp add: module_load_def payload_actions_def decoded_names decoded_property name_at_def Let_def)

end
